theory Spec2Isabelle
  imports Main "HOL-Library.Sublist"
begin

section \<open>JavaScript values\<close>

text \<open>
  The values that flow through the error-handling code are JSON-like data: the
  \<open>details\<close> records of exceptions, parsed response bodies and the bodies of the
  responses built by \<open>NextResponse.json\<close>. An object is an association list in
  insertion order; its own properties are data, never functions. Numbers are the
  integer-valued ones (status codes, ids).
\<close>

datatype jsval =
    JUndefined
  | JNull
  | JBool bool
  | JNum int
  | JStr string
  | JArr "jsval list"
  | JObj "(string \<times> jsval) list"

text \<open>Truthiness, as used by \<open>||\<close>, \<open>&&\<close> and the conditional operator.\<close>

fun truthy :: "jsval \<Rightarrow> bool" where
  "truthy JUndefined = False"
| "truthy JNull = False"
| "truthy (JBool b) = b"
| "truthy (JNum n) = (n \<noteq> 0)"
| "truthy (JStr s) = (s \<noteq> [])"
| "truthy (JArr _) = True"
| "truthy (JObj _) = True"

definition js_or :: "jsval \<Rightarrow> jsval \<Rightarrow> jsval" where
  "js_or a b = (if truthy a then a else b)"

text \<open>Reading a property of an object literal: \<open>undefined\<close> when the key is absent.\<close>

definition js_get :: "(string \<times> jsval) list \<Rightarrow> string \<Rightarrow> jsval" where
  "js_get obj k = (case map_of obj k of Some v \<Rightarrow> v | None \<Rightarrow> JUndefined)"

text \<open>Optional chaining \<open>obj?.k\<close> on a record that may be \<open>undefined\<close>.\<close>

definition opt_get :: "(string \<times> jsval) list option \<Rightarrow> string \<Rightarrow> jsval" where
  "opt_get obj k = (case obj of None \<Rightarrow> JUndefined | Some d \<Rightarrow> js_get d k)"

text \<open>
  \<open>{ ...obj, k: v }\<close>: an existing key keeps its place and takes the new value, a new
  key goes to the end.
\<close>

fun obj_set :: "(string \<times> jsval) list \<Rightarrow> string \<Rightarrow> jsval \<Rightarrow> (string \<times> jsval) list" where
  "obj_set [] k v = [(k, v)]"
| "obj_set ((k', v') # kvs) k v = (if k' = k then (k, v) # kvs else (k', v') # obj_set kvs k v)"

text \<open>
  The member access \<open>data.k\<close> on an arbitrary value, for the property names this code
  reads (none of them is an index or a built-in such as \<open>length\<close>): a \<open>TypeError\<close>
  (here \<open>None\<close>) on \<open>null\<close> and \<open>undefined\<close>, \<open>undefined\<close> on the other
  primitives and on arrays.
\<close>

fun js_member :: "jsval \<Rightarrow> string \<Rightarrow> jsval option" where
  "js_member JUndefined k = None"
| "js_member JNull k = None"
| "js_member (JObj obj) k = Some (js_get obj k)"
| "js_member _ k = Some JUndefined"

subsection \<open>Decimal numerals and \<open>String\<close>\<close>

definition digit_char :: "nat \<Rightarrow> char" where
  "digit_char d =
     (if d = 0 then CHR ''0'' else if d = 1 then CHR ''1'' else if d = 2 then CHR ''2''
      else if d = 3 then CHR ''3'' else if d = 4 then CHR ''4'' else if d = 5 then CHR ''5''
      else if d = 6 then CHR ''6'' else if d = 7 then CHR ''7'' else if d = 8 then CHR ''8''
      else CHR ''9'')"


fun digits :: "nat \<Rightarrow> string" where
  "digits n = (if n < 10 then [digit_char n] else digits (n div 10) @ [digit_char (n mod 10)])"

declare digits.simps [simp del]

definition show_int :: "int \<Rightarrow> string" where
  "show_int i = (if i < 0 then CHR ''-'' # digits (nat (- i)) else digits (nat i))"

fun join_comma :: "string list \<Rightarrow> string" where
  "join_comma [] = []"
| "join_comma [s] = s"
| "join_comma (s # t # ss) = s @ CHR '','' # join_comma (t # ss)"

text \<open>
  \<open>String(v)\<close>; \<open>None\<close> is the \<open>TypeError\<close> "Cannot convert object to primitive
  value".
  \<^item> An object is converted by its \<open>toString\<close> method, and failing that by
    \<open>valueOf\<close>. An object with an own property \<open>toString\<close> hides the inherited
    method; the property is data, so it cannot be called, the inherited \<open>valueOf\<close>
    returns the object itself, and the conversion throws. Every other object prints as
    \<open>[object Object]\<close>.
  \<^item> An array joins the conversions of its elements with commas, \<open>null\<close> and
    \<open>undefined\<close> as the empty string; it throws when an element does.
  \<^item> A safe integer (of magnitude up to \<open>2^53 - 1\<close>) prints as its decimal numeral.
    Beyond that the runtime prints the shortest digits that read back as the same
    number, from \<open>1e21\<close> on with an exponent; that notation is the parameter \<open>fmt\<close>.
\<close>

definition max_safe_integer :: int where
  "max_safe_integer = 9007199254740991"

definition number_toString :: "(int \<Rightarrow> string) \<Rightarrow> int \<Rightarrow> string" where
  "number_toString fmt n = (if \<bar>n\<bar> \<le> max_safe_integer then show_int n else fmt n)"

fun js_String :: "(int \<Rightarrow> string) \<Rightarrow> jsval \<Rightarrow> string option"
  and js_elements :: "(int \<Rightarrow> string) \<Rightarrow> jsval list \<Rightarrow> string list option" where
  "js_String fmt JUndefined = Some ''undefined''"
| "js_String fmt JNull = Some ''null''"
| "js_String fmt (JBool b) = Some (if b then ''true'' else ''false'')"
| "js_String fmt (JNum n) = Some (number_toString fmt n)"
| "js_String fmt (JStr s) = Some s"
| "js_String fmt (JArr xs) = map_option join_comma (js_elements fmt xs)"
| "js_String fmt (JObj obj) =
     (if ''toString'' \<in> set (map fst obj) then None else Some ''[object Object]'')"
| "js_elements fmt [] = Some []"
| "js_elements fmt (JUndefined # xs) = map_option (Cons []) (js_elements fmt xs)"
| "js_elements fmt (JNull # xs) = map_option (Cons []) (js_elements fmt xs)"
| "js_elements fmt (x # xs) =
     (case js_String fmt x of
        None \<Rightarrow> None
      | Some s \<Rightarrow> map_option (Cons s) (js_elements fmt xs))"

text \<open>
  What \<open>JSON.stringify\<close> writes and the reader of the body parses back: a property
  whose value is \<open>undefined\<close> is left out, an \<open>undefined\<close> element of an array
  becomes \<open>null\<close>. In an association list the first pair of a key is the property,
  so the pairs that a left-out property shadowed are left out with it.
\<close>

fun json_body :: "jsval \<Rightarrow> jsval"
  and json_props :: "(string \<times> jsval) list \<Rightarrow> (string \<times> jsval) list"
  and json_items :: "jsval list \<Rightarrow> jsval list" where
  "json_body (JObj obj) = JObj (json_props obj)"
| "json_body (JArr xs) = JArr (json_items xs)"
| "json_body JUndefined = JUndefined"
| "json_body JNull = JNull"
| "json_body (JBool b) = JBool b"
| "json_body (JNum n) = JNum n"
| "json_body (JStr t) = JStr t"
| "json_props [] = []"
| "json_props ((k, JUndefined) # kvs) = filter (\<lambda>p. fst p \<noteq> k) (json_props kvs)"
| "json_props ((k, v) # kvs) = (k, json_body v) # json_props kvs"
| "json_items [] = []"
| "json_items (JUndefined # xs) = JNull # json_items xs"
| "json_items (x # xs) = json_body x # json_items xs"

text \<open>\<open>String.prototype.includes\<close>: the argument occurs as a contiguous substring.\<close>

fun str_includes :: "string \<Rightarrow> string \<Rightarrow> bool" where
  "str_includes [] sub = (sub = [])"
| "str_includes (c # cs) sub = (prefix sub (c # cs) \<or> str_includes cs sub)"

section \<open>The clock: \<open>new Date().toISOString()\<close>\<close>

text \<open>
  A \<open>Date\<close> is its time value, the milliseconds since 1970-01-01T00:00:00Z; the system
  clock is a parameter \<open>now\<close> of every function that reads it. \<open>toISOString\<close> prints
  the UTC calendar fields as \<open>YYYY-MM-DDTHH:mm:ss.sssZ\<close>, and a year above 9999 in the
  expanded form \<open>+YYYYYY\<close>.
\<close>

definition is_leap :: "nat \<Rightarrow> bool" where
  "is_leap y = (y mod 4 = 0 \<and> (y mod 100 \<noteq> 0 \<or> y mod 400 = 0))"

definition days_in_year :: "nat \<Rightarrow> nat" where
  "days_in_year y = (if is_leap y then 366 else 365)"

function year_from_days :: "nat \<Rightarrow> nat \<Rightarrow> nat \<times> nat" where
  "year_from_days y d =
     (if d < days_in_year y then (y, d) else year_from_days (Suc y) (d - days_in_year y))"
  by pat_completeness auto
termination
  by (relation "measure (\<lambda>(y, d). d)") (auto simp: days_in_year_def)

declare year_from_days.simps [simp del]

definition month_lengths :: "nat \<Rightarrow> nat list" where
  "month_lengths y = [31, if is_leap y then 29 else 28, 31, 30, 31, 30, 31, 31, 30, 31, 30, 31]"

fun month_from_days :: "nat list \<Rightarrow> nat \<Rightarrow> nat \<Rightarrow> nat \<times> nat" where
  "month_from_days [] m d = (m, Suc d)"
| "month_from_days (l # ls) m d =
     (if d < l then (m, Suc d) else month_from_days ls (Suc m) (d - l))"

definition pad_start :: "nat \<Rightarrow> string \<Rightarrow> string" where
  "pad_start n s = replicate (n - length s) CHR ''0'' @ s"

definition year_string :: "nat \<Rightarrow> string" where
  "year_string y = (if y \<le> 9999 then pad_start 4 (digits y) else CHR ''+'' # pad_start 6 (digits y))"

definition toISOString :: "nat \<Rightarrow> string" where
  "toISOString t =
     (let day = t div 86400000;
          ms_in_day = t mod 86400000;
          (y, doy) = year_from_days 1970 day;
          (m, d) = month_from_days (month_lengths y) 1 doy
      in year_string y @ ''-'' @ pad_start 2 (digits m) @ ''-'' @ pad_start 2 (digits d)
         @ ''T'' @ pad_start 2 (digits (ms_in_day div 3600000))
         @ '':'' @ pad_start 2 (digits (ms_in_day div 60000 mod 60))
         @ '':'' @ pad_start 2 (digits (ms_in_day div 1000 mod 60))
         @ ''.'' @ pad_start 3 (digits (ms_in_day mod 1000)) @ ''Z'')"




section \<open>HTTP errors (\<open>lib/errors/http-errors.ts\<close>, \<open>types\<close>)\<close>

text \<open>The union type \<open>HttpStatusCode\<close> and the number each member denotes.\<close>

datatype HttpStatusCode =
  S400 | S401 | S403 | S404 | S405 | S409 | S422 | S429 | S500 | S502 | S503 | S504

fun code_of :: "HttpStatusCode \<Rightarrow> int" where
  "code_of S400 = 400"
| "code_of S401 = 401"
| "code_of S403 = 403"
| "code_of S404 = 404"
| "code_of S405 = 405"
| "code_of S409 = 409"
| "code_of S422 = 422"
| "code_of S429 = 429"
| "code_of S500 = 500"
| "code_of S502 = 502"
| "code_of S503 = 503"
| "code_of S504 = 504"

text \<open>The class \<open>HttpException extends Error\<close>: the fields of an instance.\<close>

record HttpException =
  name :: string
  message :: string
  statusCode :: HttpStatusCode
  error :: string
  details :: "(string \<times> jsval) list option"

fun errorNames :: "HttpStatusCode \<Rightarrow> string" where
  "errorNames S400 = ''Bad Request''"
| "errorNames S401 = ''Unauthorized''"
| "errorNames S403 = ''Forbidden''"
| "errorNames S404 = ''Not Found''"
| "errorNames S405 = ''Method Not Allowed''"
| "errorNames S409 = ''Conflict''"
| "errorNames S422 = ''Unprocessable Entity''"
| "errorNames S429 = ''Too Many Requests''"
| "errorNames S500 = ''Internal Server Error''"
| "errorNames S502 = ''Bad Gateway''"
| "errorNames S503 = ''Service Unavailable''"
| "errorNames S504 = ''Gateway Timeout''"

definition getDefaultErrorName :: "HttpStatusCode \<Rightarrow> string" where
  "getDefaultErrorName sc = (if errorNames sc \<noteq> [] then errorNames sc else ''Unknown Error'')"

text \<open>
  The constructor. The optional argument \<open>error\<close> is \<open>None\<close> when it is left out;
  \<open>error || default\<close> also replaces the empty string.
\<close>

definition new_HttpException ::
  "HttpStatusCode \<Rightarrow> string \<Rightarrow> string option \<Rightarrow> (string \<times> jsval) list option \<Rightarrow> HttpException" where
  "new_HttpException sc msg err det =
     \<lparr>name = ''HttpException'', message = msg, statusCode = sc,
      error = (case err of None \<Rightarrow> getDefaultErrorName sc
               | Some e \<Rightarrow> if e \<noteq> [] then e else getDefaultErrorName sc),
      details = det\<rparr>"

text \<open>\<open>toJSON\<close>; \<open>now\<close> is the reading of the clock.\<close>

definition toJSON :: "nat \<Rightarrow> HttpException \<Rightarrow> (string \<times> jsval) list" where
  "toJSON now h =
     [(''error'', JStr (error h)), (''message'', JStr (message h)),
      (''status_code'', JNum (code_of (statusCode h))),
      (''timestamp'', JStr (toISOString now))]
     @ (case details h of None \<Rightarrow> [] | Some d \<Rightarrow> [(''details'', JObj d)])"

text \<open>
  The predefined subclasses. A message with a default value is an optional argument:
  \<open>None\<close> takes the default.
\<close>

definition BadRequestError :: "string \<Rightarrow> (string \<times> jsval) list option \<Rightarrow> HttpException" where
  "BadRequestError msg det =
     (new_HttpException S400 msg (Some ''Bad Request'') det)\<lparr>name := ''BadRequestError''\<rparr>"

definition UnauthorizedError :: "string option \<Rightarrow> (string \<times> jsval) list option \<Rightarrow> HttpException" where
  "UnauthorizedError msg det =
     (new_HttpException S401 (case msg of None \<Rightarrow> ''Unauthorized'' | Some m \<Rightarrow> m)
        (Some ''Unauthorized'') det)\<lparr>name := ''UnauthorizedError''\<rparr>"

definition ForbiddenError :: "string option \<Rightarrow> (string \<times> jsval) list option \<Rightarrow> HttpException" where
  "ForbiddenError msg det =
     (new_HttpException S403 (case msg of None \<Rightarrow> ''Forbidden'' | Some m \<Rightarrow> m)
        (Some ''Forbidden'') det)\<lparr>name := ''ForbiddenError''\<rparr>"

definition NotFoundError :: "string option \<Rightarrow> (string \<times> jsval) list option \<Rightarrow> HttpException" where
  "NotFoundError msg det =
     (new_HttpException S404 (case msg of None \<Rightarrow> ''Resource not found'' | Some m \<Rightarrow> m)
        (Some ''Not Found'') det)\<lparr>name := ''NotFoundError''\<rparr>"

definition ConflictError :: "string \<Rightarrow> (string \<times> jsval) list option \<Rightarrow> HttpException" where
  "ConflictError msg det =
     (new_HttpException S409 msg (Some ''Conflict'') det)\<lparr>name := ''ConflictError''\<rparr>"

definition UnprocessableEntityError :: "string \<Rightarrow> (string \<times> jsval) list option \<Rightarrow> HttpException" where
  "UnprocessableEntityError msg det =
     (new_HttpException S422 msg (Some ''Unprocessable Entity'') det)\<lparr>name := ''UnprocessableEntityError''\<rparr>"

definition TooManyRequestsError :: "string option \<Rightarrow> (string \<times> jsval) list option \<Rightarrow> HttpException" where
  "TooManyRequestsError msg det =
     (new_HttpException S429 (case msg of None \<Rightarrow> ''Too many requests'' | Some m \<Rightarrow> m)
        (Some ''Too Many Requests'') det)\<lparr>name := ''TooManyRequestsError''\<rparr>"

definition InternalServerError :: "string option \<Rightarrow> (string \<times> jsval) list option \<Rightarrow> HttpException" where
  "InternalServerError msg det =
     (new_HttpException S500 (case msg of None \<Rightarrow> ''Internal server error'' | Some m \<Rightarrow> m)
        (Some ''Internal Server Error'') det)\<lparr>name := ''InternalServerError''\<rparr>"

definition BadGatewayError :: "string option \<Rightarrow> (string \<times> jsval) list option \<Rightarrow> HttpException" where
  "BadGatewayError msg det =
     (new_HttpException S502 (case msg of None \<Rightarrow> ''Bad gateway'' | Some m \<Rightarrow> m)
        (Some ''Bad Gateway'') det)\<lparr>name := ''BadGatewayError''\<rparr>"

definition ServiceUnavailableError :: "string option \<Rightarrow> (string \<times> jsval) list option \<Rightarrow> HttpException" where
  "ServiceUnavailableError msg det =
     (new_HttpException S503 (case msg of None \<Rightarrow> ''Service unavailable'' | Some m \<Rightarrow> m)
        (Some ''Service Unavailable'') det)\<lparr>name := ''ServiceUnavailableError''\<rparr>"



text \<open>
  A value of type \<open>unknown\<close> that reaches a \<open>catch\<close>: an \<open>HttpException\<close>, another
  \<open>Error\<close> (its name, its message and its own extra properties), or a value that is
  not an \<open>Error\<close>.
\<close>

record js_error =
  err_name :: string
  err_message :: string
  err_props :: "(string \<times> jsval) list"

datatype thrown = HttpExc HttpException | ErrorObj js_error | NonError jsval

fun isHttpException :: "thrown \<Rightarrow> bool" where
  "isHttpException (HttpExc _) = True"
| "isHttpException _ = False"

text \<open>The \<open>TypeError\<close> that \<open>String\<close> throws on a value it cannot convert.\<close>

definition cannot_convert :: thrown where
  "cannot_convert =
     ErrorObj \<lparr>err_name = ''TypeError'', err_message = ''Cannot convert object to primitive value'',
               err_props = []\<rparr>"

text \<open>
  \<open>toHttpException\<close>. It returns an exception (\<open>Inr\<close>) or throws (\<open>Inl\<close>): the
  last branch calls \<open>String(error)\<close>, which throws on a value it cannot convert.
\<close>

fun toHttpException :: "(int \<Rightarrow> string) \<Rightarrow> thrown \<Rightarrow> thrown + HttpException" where
  "toHttpException fmt (HttpExc h) = Inr h"
| "toHttpException fmt (ErrorObj e) =
     Inr (InternalServerError (Some (err_message e)) (Some [(''originalError'', JStr (err_name e))]))"
| "toHttpException fmt (NonError v) =
     (case js_String fmt v of
        None \<Rightarrow> Inl cannot_convert
      | Some s \<Rightarrow>
          Inr (InternalServerError (Some ''An unknown error occurred'')
                 (Some [(''originalError'', JStr s)])))"

section \<open>The API error handler (\<open>lib/errors/api-error-handler.ts\<close>)\<close>

record NextRequest =
  req_method :: string
  url :: string

record NextResponse =
  status :: int
  body :: jsval

text \<open>
  \<open>NextResponse.json(body, {status})\<close>: the response carries the body as JSON text,
  here the value a reader of the response parses.
\<close>

definition NextResponse_json :: "jsval \<Rightarrow> int \<Rightarrow> NextResponse" where
  "NextResponse_json v st = \<lparr>status = st, body = json_body v\<rparr>"

text \<open>The request id the handler looks for in the details of an exception.\<close>

definition backendRequestId :: "HttpException \<Rightarrow> jsval" where
  "backendRequestId httpError =
     js_or (opt_get (details httpError) ''requestId'') (opt_get (details httpError) ''request_id'')"

text \<open>
  \<open>handleApiError\<close>. It returns a response (\<open>Inr\<close>) or throws (\<open>Inl\<close>): the
  conversion of the error may throw, and so may \<open>String(backendRequestId)\<close>. The
  request is only read by the development-mode logging, which writes to the console and
  returns nothing; the response does not depend on it.
\<close>

definition handleApiError :: "(int \<Rightarrow> string) \<Rightarrow> nat \<Rightarrow> thrown \<Rightarrow> thrown + NextResponse" where
  "handleApiError fmt now err =
     (case toHttpException fmt err of
        Inl t \<Rightarrow> Inl t
      | Inr httpError \<Rightarrow>
          (let baseResponse = toJSON now httpError
           in if truthy (backendRequestId httpError) then
                (case js_String fmt (backendRequestId httpError) of
                   None \<Rightarrow> Inl cannot_convert
                 | Some s \<Rightarrow>
                     Inr (NextResponse_json (JObj (obj_set baseResponse ''request_id'' (JStr s)))
                            (code_of (statusCode httpError))))
              else Inr (NextResponse_json (JObj baseResponse) (code_of (statusCode httpError)))))"

text \<open>
  \<open>withErrorHandler\<close>. An asynchronous handler that settles either resolves with a
  response (\<open>Inr\<close>) or throws, or rejects with, a value (\<open>Inl\<close>); so does the handler
  that wraps it, which rejects when \<open>handleApiError\<close> throws inside the \<open>catch\<close>
  block.
\<close>

definition withErrorHandler ::
  "(int \<Rightarrow> string) \<Rightarrow> nat \<Rightarrow> (NextRequest \<Rightarrow> thrown + NextResponse) \<Rightarrow> NextRequest
   \<Rightarrow> thrown + NextResponse" where
  "withErrorHandler fmt now handler req =
     (case handler req of Inr response \<Rightarrow> Inr response | Inl err \<Rightarrow> handleApiError fmt now err)"

text \<open>
  The values \<open>handleApiError\<close> can answer: \<open>String\<close> converts what the handler
  converts of the value, that is a value that is not an \<open>Error\<close>, and the request id
  in the details of an \<open>HttpException\<close>.
\<close>

fun convertible :: "(int \<Rightarrow> string) \<Rightarrow> thrown \<Rightarrow> bool" where
  "convertible fmt (HttpExc h) =
     (if truthy (backendRequestId h) then js_String fmt (backendRequestId h) \<noteq> None else True)"
| "convertible fmt (ErrorObj e) = True"
| "convertible fmt (NonError v) = (js_String fmt v \<noteq> None)"

text \<open>The response of a handler, when it returns one.\<close>

definition responded :: "thrown + NextResponse \<Rightarrow> NextResponse option" where
  "responded x = (case x of Inl t \<Rightarrow> None | Inr r \<Rightarrow> Some r)"



text \<open>Reading a field of the JSON body of a response.\<close>

definition field :: "NextResponse \<Rightarrow> string \<Rightarrow> jsval option" where
  "field r k = (case body r of JObj obj \<Rightarrow> map_of obj k | _ \<Rightarrow> None)"

section \<open>Backend error responses (\<open>lib/errors/backend-error-handler.ts\<close>)\<close>

text \<open>
  A fetch \<open>Response\<close>, as far as the parser reads it: \<open>ok\<close>, \<open>status\<close>,
  \<open>statusText\<close>, the lookup \<open>headers.get\<close>, and what \<open>json()\<close> settles to: the parsed
  body, or \<open>None\<close> when the promise rejects (the body is not JSON).
\<close>

record Response =
  ok :: bool
  http_status :: nat
  statusText :: string
  headers_get :: "string \<Rightarrow> string option"
  json :: "jsval option"

text \<open>
  \<open>BackendErrorResponse\<close>. The parser copies the fields of the untyped body as they
  are, so each field holds a value; an optional field that is left out reads as
  \<open>undefined\<close>.
\<close>

record BackendErrorResponse =
  be_error :: jsval
  be_message :: jsval
  be_request_id :: jsval
  be_timestamp :: jsval
  be_details :: jsval

definition js_read :: "jsval \<Rightarrow> string \<Rightarrow> jsval" where
  "js_read v k = (case js_member v k of Some x \<Rightarrow> x | None \<Rightarrow> JUndefined)"

text \<open>The record built in the \<open>catch\<close> block.\<close>

definition generic_error :: "Response \<Rightarrow> BackendErrorResponse" where
  "generic_error r =
     \<lparr>be_error = JStr ''Unknown Error'',
      be_message = JStr (''HTTP '' @ digits (http_status r) @ '': '' @ statusText r),
      be_request_id = (case headers_get r ''X-Request-ID'' of
                         None \<Rightarrow> JUndefined
                       | Some i \<Rightarrow> if i \<noteq> [] then JStr i else JUndefined),
      be_timestamp = JUndefined,
      be_details = JUndefined\<rparr>"

text \<open>
  \<open>parseBackendErrorResponse\<close>; \<open>None\<close> is \<open>null\<close>. The \<open>try\<close> block covers the
  call of \<open>json()\<close> and the reads \<open>data.error\<close> and \<open>data.message\<close>: whatever
  either throws ends in the \<open>catch\<close> block.
\<close>

definition parseBackendErrorResponse :: "Response \<Rightarrow> BackendErrorResponse option" where
  "parseBackendErrorResponse response =
     (if \<not> ok response then
        (case json response of
           None \<Rightarrow> Some (generic_error response)
         | Some data \<Rightarrow>
             (case js_member data ''error'' of
                None \<Rightarrow> Some (generic_error response)
              | Some e \<Rightarrow>
                  if truthy e \<and> truthy (js_read data ''message'')
                  then Some \<lparr>be_error = e,
                             be_message = js_read data ''message'',
                             be_request_id = js_read data ''request_id'',
                             be_timestamp = js_read data ''timestamp'',
                             be_details = js_read data ''details''\<rparr>
                  else None))
      else None)"

text \<open>
  \<open>handleBackendErrorResponse\<close> logs what the parser returns and returns it; the log
  goes to the console.
\<close>

definition handleBackendErrorResponse :: "Response \<Rightarrow> BackendErrorResponse option" where
  "handleBackendErrorResponse response = parseBackendErrorResponse response"

text \<open>
  \<open>createClientErrorFromBackend\<close>; \<open>new Error(message)\<close> converts the message to a
  string, which throws on a value that cannot be converted.
\<close>

definition createClientErrorFromBackend ::
  "(int \<Rightarrow> string) \<Rightarrow> BackendErrorResponse \<Rightarrow> thrown + js_error" where
  "createClientErrorFromBackend fmt backendError =
     (case js_String fmt (be_message backendError) of
        None \<Rightarrow> Inl cannot_convert
      | Some m \<Rightarrow>
          Inr \<lparr>err_name = ''Error'', err_message = m,
               err_props = [(''backendError'',
                     JObj [(''error'', be_error backendError), (''message'', be_message backendError),
                           (''request_id'', be_request_id backendError),
                           (''timestamp'', be_timestamp backendError),
                           (''details'', be_details backendError)]),
                   (''requestId'', be_request_id backendError)]\<rparr>)"

text \<open>
  The request id an \<open>Error\<close> carries as a property of its own, as
  \<open>createClientErrorFromBackend\<close> attaches it: \<open>requestId\<close>, or the \<open>request_id\<close>
  of its \<open>backendError\<close>.
\<close>

definition carried_request_id :: "thrown \<Rightarrow> jsval" where
  "carried_request_id err =
     (case err of
        ErrorObj e \<Rightarrow> js_or (js_get (err_props e) ''requestId'')
                           (js_read (js_get (err_props e) ''backendError'') ''request_id'')
      | _ \<Rightarrow> JUndefined)"

section \<open>The route (\<open>app/api/copilotkit/route.ts\<close>)\<close>

text \<open>\<open>process.env.AGENT_URL || "http://localhost:8123"\<close>.\<close>

definition agentUrl :: "string option \<Rightarrow> string" where
  "agentUrl env = (case env of None \<Rightarrow> ''http://localhost:8123''
                   | Some u \<Rightarrow> if u \<noteq> [] then u else ''http://localhost:8123'')"

text \<open>
  \<open>error instanceof Error\<close>: the message and the own extra properties of an
  \<open>Error\<close>. An \<open>HttpException\<close> is an \<open>Error\<close> too, without a property
  \<open>backendError\<close>.
\<close>

fun as_Error :: "thrown \<Rightarrow> (string \<times> (string \<times> jsval) list) option" where
  "as_Error (HttpExc h) = Some (message h, [])"
| "as_Error (ErrorObj e) = Some (err_message e, err_props e)"
| "as_Error (NonError v) = None"

text \<open>The match of \<open>/\{[\s\S]*\}/\<close>: from the first opening brace to the last closing one.\<close>

definition jsonMatch :: "string \<Rightarrow> string option" where
  "jsonMatch s =
     (let t = dropWhile (\<lambda>c. c \<noteq> CHR ''{'') s
      in if CHR ''}'' \<in> set t then Some (rev (dropWhile (\<lambda>c. c \<noteq> CHR ''}'') (rev t))) else None)"

text \<open>
  The match of \<open>/request_id["']?\s*:\s*["']?([^"'\s}]+)/i\<close>, its first group. The
  character classes that follow one another are disjoint, so the greedy match at a
  position is the only one there.
\<close>

text \<open>
  The class \<open>\s\<close> of the regular expression: of the characters of a string here (the
  code units below 256) the six ASCII whitespace characters and the no-break space.
\<close>

definition regex_space :: "char \<Rightarrow> bool" where
  "regex_space c =
     (c \<in> set [CHR 0x09, CHR 0x0A, CHR 0x0B, CHR 0x0C, CHR 0x0D, CHR 0x20, CHR 0xA0])"

definition is_quote :: "char \<Rightarrow> bool" where
  "is_quote c = (c = CHR 0x22 \<or> c = CHR 0x27)"

definition to_lower :: "char \<Rightarrow> char" where
  "to_lower c = (case map_of (zip ''ABCDEFGHIJKLMNOPQRSTUVWXYZ'' ''abcdefghijklmnopqrstuvwxyz'') c of
                   Some l \<Rightarrow> l | None \<Rightarrow> c)"

definition skip_quote :: "string \<Rightarrow> string" where
  "skip_quote s = (case s of [] \<Rightarrow> [] | c # cs \<Rightarrow> if is_quote c then cs else c # cs)"

definition request_id_at :: "string \<Rightarrow> string option" where
  "request_id_at s =
     (if map to_lower (take 10 s) = ''request_id'' then
        (case dropWhile regex_space (skip_quote (drop 10 s)) of
           [] \<Rightarrow> None
         | c # cs \<Rightarrow>
             if c = CHR '':'' then
               (let grp = takeWhile (\<lambda>x. \<not> is_quote x \<and> \<not> regex_space x \<and> x \<noteq> CHR ''}'')
                            (skip_quote (dropWhile regex_space cs))
                in if grp \<noteq> [] then Some grp else None)
             else None)
      else None)"

fun requestIdMatch :: "string \<Rightarrow> string option" where
  "requestIdMatch [] = None"
| "requestIdMatch (c # cs) =
     (case request_id_at (c # cs) of Some g \<Rightarrow> Some g | None \<Rightarrow> requestIdMatch cs)"

text \<open>
  What the inner \<open>try\<close> block throws: the \<open>SyntaxError\<close> of \<open>JSON.parse\<close>, the
  \<open>TypeError\<close> of a message that cannot be converted, or the \<open>InternalServerError\<close>
  built from the parsed backend error. \<open>JSON.parse\<close> is a parameter (\<open>None\<close>: the
  text is not JSON).
\<close>

definition try_backend_error ::
  "(int \<Rightarrow> string) \<Rightarrow> (string \<Rightarrow> jsval option) \<Rightarrow> string \<Rightarrow> string \<Rightarrow> thrown" where
  "try_backend_error fmt JSON_parse matched msg =
     (case JSON_parse matched of
        None \<Rightarrow> ErrorObj \<lparr>err_name = ''SyntaxError'', err_message = ''Unexpected token'', err_props = []\<rparr>
      | Some backendError \<Rightarrow>
          (case js_String fmt (js_or (js_read backendError ''message'')
                                     (JStr ''Backend service error occurred'')) of
             None \<Rightarrow> cannot_convert
           | Some m \<Rightarrow>
               HttpExc (InternalServerError (Some m)
                 (Some [(''backendError'', js_read backendError ''error''),
                        (''requestId'', js_read backendError ''request_id''),
                        (''details'', js_read backendError ''details''),
                        (''originalError'', JStr msg)]))))"

text \<open>What \<open>catch (parseError)\<close> and the \<open>else\<close> branch throw.\<close>

definition backend_service_error :: "string \<Rightarrow> thrown" where
  "backend_service_error msg =
     HttpExc (InternalServerError
       (Some ''Backend service error. Please check backend logs for details.'')
       (Some [(''originalError'', JStr msg),
              (''requestId'', (case requestIdMatch msg of Some g \<Rightarrow> JStr g | None \<Rightarrow> JUndefined))]))"

text \<open>
  The handler given to \<open>withErrorHandler\<close>. \<open>handled\<close> is what the call of the
  CopilotKit endpoint settles to. The \<open>throw\<close> at the end of the inner \<open>try\<close> block
  is inside that block, so its \<open>catch\<close> receives it like a parse failure and throws
  the generic error in its place.
\<close>

definition POST_handler ::
  "(int \<Rightarrow> string) \<Rightarrow> string option \<Rightarrow> (string \<Rightarrow> jsval option) \<Rightarrow> (thrown + NextResponse)
   \<Rightarrow> thrown + NextResponse" where
  "POST_handler fmt env JSON_parse handled =
     (case handled of
        Inr response \<Rightarrow> Inr response
      | Inl err \<Rightarrow>
          (case as_Error err of
             None \<Rightarrow> Inl err
           | Some (msg, props) \<Rightarrow>
               if truthy (js_get props ''backendError'') then Inl err
               else if str_includes msg ''ECONNREFUSED'' \<or> str_includes msg ''connect'' then
                 Inl (HttpExc (ServiceUnavailableError
                   (Some ''Unable to connect to the code review agent. Please ensure the backend service is running.'')
                   (Some [(''agentUrl'', JStr (agentUrl env))])))
               else if str_includes msg ''timeout'' then
                 Inl (HttpExc (BadGatewayError
                   (Some ''Request to code review agent timed out. Please try again.'')
                   (Some [(''timeout'', JBool True)])))
               else if str_includes msg ''HTTP 500'' \<or> str_includes msg ''Internal server error''
                       \<or> str_includes msg ''HTTP'' then
                 (case jsonMatch msg of
                    Some matched \<Rightarrow>
                      (let parseError = try_backend_error fmt JSON_parse matched msg
                       in Inl (backend_service_error msg))
                  | None \<Rightarrow> Inl (backend_service_error msg))
               else Inl err))"

definition POST ::
  "(int \<Rightarrow> string) \<Rightarrow> nat \<Rightarrow> string option \<Rightarrow> (string \<Rightarrow> jsval option)
   \<Rightarrow> (NextRequest \<Rightarrow> thrown + NextResponse) \<Rightarrow> NextRequest \<Rightarrow> thrown + NextResponse" where
  "POST fmt now env JSON_parse handleRequest =
     withErrorHandler fmt now (\<lambda>req. POST_handler fmt env JSON_parse (handleRequest req))"

section \<open>The analysis pipeline\<close>

text \<open>
  The backend that runs the four stages (\<open>agent.py\<close>, the nodes, the agents and the
  tools) is not among the source files at hand. The data model and the orchestrator
  below are modelled from the specification; the tools, the reasoning model and the
  extraction of the code from the request are collaborators, taken as parameters.
\<close>

subsection \<open>Data model\<close>

text \<open>
  Modelled from the spec: the severity of a finding (section 3); the backend that
  declares it is missing.
\<close>

datatype severity = critical | major | minor

text \<open>
  Modelled from the spec: \<open>Finding\<close> (section 3), missing with the heuristic checks.
\<close>

record Finding =
  kind :: string
  severity :: severity
  line :: nat
  finding_message :: string
  suggested_fix :: "string option"

text \<open>
  Modelled from the spec: \<open>CodeArtifact\<close> (section 3), missing with the Entry stage. The
  language tag of a request is optional, and so is the declared language.
\<close>

record CodeArtifact =
  code_text :: string
  declared_language :: "string option"

text \<open>
  Modelled from the spec: a parameter of a function in \<open>StructuralSummary\<close> (section 3),
  missing with the structural tools.
\<close>

record Param =
  param_name :: string
  param_type :: "string option"
  param_default :: "string option"

text \<open>
  Modelled from the spec: a function in \<open>StructuralSummary\<close> (section 3), missing with
  the structural tools.
\<close>

record FunctionInfo =
  function_name :: string
  params :: "Param list"
  return_type :: "string option"
  docstring :: "string option"
  start_line :: nat
  end_line :: nat

text \<open>
  Modelled from the spec: a class in \<open>StructuralSummary\<close> (section 3), missing with the
  structural tools.
\<close>

record ClassInfo =
  class_name :: string
  bases :: "string list"
  class_methods :: "FunctionInfo list"

text \<open>
  Modelled from the spec: the complexity metrics of \<open>StructuralSummary\<close> (section 3),
  missing with the structural tools.
\<close>

record Complexity =
  line_count :: nat
  max_nesting_depth :: nat
  loop_count :: nat
  conditional_count :: nat

text \<open>
  Modelled from the spec: \<open>StructuralSummary\<close> (section 3), missing with the structural
  tools.
\<close>

record StructuralSummary =
  import_list :: "string list"
  function_list :: "FunctionInfo list"
  class_list :: "ClassInfo list"
  complexity :: Complexity

text \<open>
  Modelled from the spec: the errors that end a run (section 7: \<open>InputError\<close>,
  \<open>UpstreamError\<close>, \<open>InternalError\<close>); the recoverable ones are findings or omissions,
  not values of this type. The backend error model is missing.
\<close>

datatype run_error = InputError string | UpstreamError string | InternalError string

text \<open>
  Modelled from the spec: the four named stages of the pipeline (section 2), missing with
  the backend graph.
\<close>

datatype stage = Entry | Validation | Analysis | Summary

text \<open>
  Modelled from the spec: the status of a \<open>StageResult\<close> (section 3: done, failed,
  skipped), missing with the backend state.
\<close>

datatype stage_status = Done | Failed | Skipped

text \<open>
  Modelled from the spec: \<open>StageResult\<close> (section 3), missing with the backend state.
\<close>

record StageResult =
  stage_name :: stage
  stage_status :: stage_status
  findings :: "Finding list option"
  structure_summary :: "StructuralSummary option"
  narrative :: "string option"
  stage_error :: "run_error option"

text \<open>
  Modelled from the spec: \<open>PipelineRun\<close> (section 3), missing with the backend state.
\<close>

record PipelineRun =
  run_id :: string
  created_at :: nat
  code :: "CodeArtifact option"
  stage_results :: "StageResult list"
  terminal_error :: "run_error option"

subsection \<open>Collaborators\<close>

text \<open>
  Modelled from the spec: the inbound request (section 6: the user message, the shared
  code context, the language tag); the backend endpoint that receives it is missing.
\<close>

record Request =
  user_message :: string
  code_context :: "string option"
  language_tag :: "string option"

text \<open>
  Modelled from the spec: what a stage hands to the reasoning model (4.4: the code and the
  findings; 4.5: the code and the structure; 4.6: the two narratives and the count of
  findings by severity). The prompt templates are missing.
\<close>

datatype prompt =
    ValidationPrompt string "Finding list"
  | AnalysisPrompt string StructuralSummary
  | SummaryPrompt "string option" "nat \<times> nat \<times> nat" "string option"

text \<open>
  Modelled from the spec: what a call of the reasoning model ends in (section 7: a text,
  or the service timed out, is unavailable or rate-limited). The model client is missing.
\<close>

datatype model_reply = Reply string | TimedOut | Unavailable | RateLimited

text \<open>
  Modelled from the spec: the collaborators of the stages, which are missing: the
  extraction of the code from the request (4.1), \<open>parse\<close> with the syntax error it
  may find (4.2), the named heuristic detectors (4.3), the structural extractors (4.2) and
  the reasoning model. Each is a parameter.
\<close>

record Collaborators =
  extract_code :: "Request \<Rightarrow> string"
  parse :: "string \<Rightarrow> Finding option"
  detectors :: "(string \<times> (string \<Rightarrow> Finding list)) list"
  extract_imports :: "string \<Rightarrow> string list"
  extract_functions :: "string \<Rightarrow> FunctionInfo list"
  extract_classes :: "string \<Rightarrow> ClassInfo list"
  compute_complexity :: "string \<Rightarrow> Complexity"
  reasoning_model :: "prompt \<Rightarrow> model_reply"

text \<open>
  Modelled from the spec: what a run does besides building its record, the trace of
  its observable events: a stage starts, a tool is called, the reasoning model is called.
  The backend that causes them is missing.
\<close>

datatype event = StageRun stage | ToolCall string | ModelCall stage

fun is_call :: "event \<Rightarrow> bool" where
  "is_call (StageRun _) = False"
| "is_call (ToolCall _) = True"
| "is_call (ModelCall _) = True"

fun stages_run :: "event list \<Rightarrow> stage list" where
  "stages_run [] = []"
| "stages_run (StageRun s # es) = s # stages_run es"
| "stages_run (_ # es) = stages_run es"

subsection \<open>Stages\<close>

text \<open>
  A stage reads the run and returns the events it caused together with its tagged
  outcome: an unrecoverable error, or the \<open>StageResult\<close> to append and the code
  artifact the run holds from then on.
\<close>

text \<open>
  Modelled from the spec: the whitespace that the Entry stage trims (4.1); the stage is
  missing.
\<close>

definition is_whitespace :: "char \<Rightarrow> bool" where
  "is_whitespace c = (c \<in> set [CHR 0x09, CHR 0x0A, CHR 0x0B, CHR 0x0C, CHR 0x0D, CHR 0x20])"

text \<open>
  Modelled from the spec: trimming whitespace (4.1); the Entry stage is missing.
\<close>

definition trim :: "string \<Rightarrow> string" where
  "trim s = rev (dropWhile is_whitespace (rev (dropWhile is_whitespace s)))"

text \<open>
  Modelled from the spec: a \<open>done\<close> result with no payload yet (4.7); the stage bodies
  are missing.
\<close>

definition stage_done :: "stage \<Rightarrow> StageResult" where
  "stage_done s = \<lparr>stage_name = s, stage_status = Done, findings = None,
                   structure_summary = None, narrative = None, stage_error = None\<rparr>"

text \<open>
  Modelled from the spec: the narrative of a stage is the text of the reply, and null
  when the call failed (4.4, 4.5); the stage bodies are missing.
\<close>

definition narrative_of :: "model_reply \<Rightarrow> string option" where
  "narrative_of r = (case r of Reply t \<Rightarrow> Some t | _ \<Rightarrow> None)"

text \<open>
  Modelled from the spec: the order critical, major, minor (4.4); the Validation stage is
  missing.
\<close>

definition severity_rank :: "severity \<Rightarrow> nat" where
  "severity_rank s = (case s of critical \<Rightarrow> 0 | major \<Rightarrow> 1 | minor \<Rightarrow> 2)"

text \<open>
  Modelled from the spec: findings ordered by line, then by severity (4.4); the
  Validation stage is missing.
\<close>

definition order_findings :: "Finding list \<Rightarrow> Finding list" where
  "order_findings fs = sort_key (\<lambda>f. 3 * line f + severity_rank (severity f)) fs"

text \<open>
  Modelled from the spec: the count of the Validation findings of one severity (4.6);
  the Summary stage is missing.
\<close>

definition count_severity :: "severity \<Rightarrow> StageResult list \<Rightarrow> nat" where
  "count_severity sv rs =
     length (filter (\<lambda>f. severity f = sv)
       (concat (map (\<lambda>r. case findings r of None \<Rightarrow> [] | Some fs \<Rightarrow> fs)
                    (filter (\<lambda>r. stage_name r = Validation) rs))))"

text \<open>
  Modelled from the spec: the narrative a stage left in the run (4.6); the Summary stage
  is missing.
\<close>

definition narrative_from :: "stage \<Rightarrow> StageResult list \<Rightarrow> string option" where
  "narrative_from s rs = (case filter (\<lambda>r. stage_name r = s) rs of [] \<Rightarrow> None | r # _ \<Rightarrow> narrative r)"

text \<open>
  Modelled from the spec: the Entry stage (4.1), which is missing. It trims the code of the
  request; empty code is \<open>InputError "no code provided"\<close>; otherwise the stage is done
  and the run holds the code artifact. It calls no tool and no model.
\<close>

definition entry_stage ::
  "Collaborators \<Rightarrow> Request \<Rightarrow> PipelineRun \<Rightarrow> event list \<times> (run_error + StageResult \<times> CodeArtifact option)" where
  "entry_stage env req run =
     (let trimmed = trim (extract_code env req)
      in if trimmed = [] then ([], Inl (InputError ''no code provided''))
         else ([], Inr (stage_done Entry,
                        Some \<lparr>code_text = trimmed, declared_language = language_tag req\<rparr>)))"

text \<open>
  Modelled from the spec: the Validation stage (4.4), which is missing. It runs \<open>parse\<close>
  and every detector, orders the findings, and calls the reasoning model once; when that
  call fails the stage is still done, with its findings and no narrative.
\<close>

definition validation_stage ::
  "Collaborators \<Rightarrow> PipelineRun \<Rightarrow> event list \<times> (run_error + StageResult \<times> CodeArtifact option)" where
  "validation_stage env run =
     (case code run of
        None \<Rightarrow> ([], Inl (InternalError ''no code artifact''))
      | Some artifact \<Rightarrow>
          (let src = code_text artifact;
               found = order_findings
                 ((case parse env src of None \<Rightarrow> [] | Some f \<Rightarrow> [f])
                  @ concat (map (\<lambda>(n, detect). detect src) (detectors env)));
               reply = reasoning_model env (ValidationPrompt src found)
           in (ToolCall ''parse'' # map (\<lambda>(n, detect). ToolCall n) (detectors env)
                 @ [ModelCall Validation],
               Inr ((stage_done Validation)\<lparr>findings := Some found, narrative := narrative_of reply\<rparr>,
                    code run))))"

text \<open>
  Modelled from the spec: the Analysis stage (4.5), which is missing. It runs the
  structural extraction and calls the reasoning model once; the structure is always
  returned, the narrative only when the call succeeds.
\<close>

definition analysis_stage ::
  "Collaborators \<Rightarrow> PipelineRun \<Rightarrow> event list \<times> (run_error + StageResult \<times> CodeArtifact option)" where
  "analysis_stage env run =
     (case code run of
        None \<Rightarrow> ([], Inl (InternalError ''no code artifact''))
      | Some artifact \<Rightarrow>
          (let src = code_text artifact;
               summary = \<lparr>import_list = extract_imports env src,
                          function_list = extract_functions env src,
                          class_list = extract_classes env src,
                          complexity = compute_complexity env src\<rparr>;
               reply = reasoning_model env (AnalysisPrompt src summary)
           in ([ToolCall ''parse'', ToolCall ''extract_imports'', ToolCall ''extract_functions'',
                ToolCall ''extract_classes'', ToolCall ''compute_complexity'', ModelCall Analysis],
               Inr ((stage_done Analysis)\<lparr>structure_summary := Some summary,
                                           narrative := narrative_of reply\<rparr>,
                    code run))))"

text \<open>
  Modelled from the spec: the Summary stage (4.6, and the timeout policy of section 5),
  which is missing. It calls no tool and the reasoning model once; when that call fails the
  run fails with an \<open>UpstreamError\<close>.
\<close>

definition summary_stage ::
  "Collaborators \<Rightarrow> PipelineRun \<Rightarrow> event list \<times> (run_error + StageResult \<times> CodeArtifact option)" where
  "summary_stage env run =
     (let rs = stage_results run;
          reply = reasoning_model env
            (SummaryPrompt (narrative_from Validation rs)
               (count_severity critical rs, count_severity major rs, count_severity minor rs)
               (narrative_from Analysis rs))
      in ([ModelCall Summary],
          (case reply of
             Reply t \<Rightarrow> Inr ((stage_done Summary)\<lparr>narrative := Some t\<rparr>, code run)
           | TimedOut \<Rightarrow> Inl (UpstreamError ''timed out'')
           | Unavailable \<Rightarrow> Inl (UpstreamError ''unavailable'')
           | RateLimited \<Rightarrow> Inl (UpstreamError ''rate limited''))))"

text \<open>
  Modelled from the spec: the body of each named stage; the backend nodes are missing.
\<close>

fun run_stage ::
  "Collaborators \<Rightarrow> Request \<Rightarrow> stage \<Rightarrow> PipelineRun \<Rightarrow> event list \<times> (run_error + StageResult \<times> CodeArtifact option)" where
  "run_stage env req Entry run = entry_stage env req run"
| "run_stage env req Validation run = validation_stage env run"
| "run_stage env req Analysis run = analysis_stage env run"
| "run_stage env req Summary run = summary_stage env run"

subsection \<open>Run orchestrator\<close>

text \<open>
  Modelled from the spec: the states of a run (4.7), missing with the orchestrator. A
  state other than \<open>pending\<close>, \<open>completed\<close> and \<open>failed\<close> names the stage that runs
  next.
\<close>

datatype run_state = pending | extracting | validating | analyzing | summarizing | completed | failed

text \<open>
  Modelled from the spec: what the orchestrator owns during a request (section 3): the state
  of the run, its \<open>PipelineRun\<close> and the trace. The orchestrator is missing.
\<close>

record Orchestrator =
  state :: run_state
  run :: PipelineRun
  trace :: "event list"

text \<open>
  Modelled from the spec: the fixed order of the stages (section 2); the backend graph is
  missing.
\<close>

definition pipeline :: "stage list" where
  "pipeline = [Entry, Validation, Analysis, Summary]"

text \<open>
  Modelled from the spec: the stages that remain after a stage (4.7); the orchestrator is
  missing.
\<close>

fun stages_after :: "stage \<Rightarrow> stage list" where
  "stages_after Entry = [Validation, Analysis, Summary]"
| "stages_after Validation = [Analysis, Summary]"
| "stages_after Analysis = [Summary]"
| "stages_after Summary = []"

text \<open>
  Modelled from the spec: the result of the stage that set the terminal error (section 3:
  status failed, with the error); the orchestrator is missing.
\<close>

definition stage_failed :: "stage \<Rightarrow> run_error \<Rightarrow> StageResult" where
  "stage_failed s e = (stage_done s)\<lparr>stage_status := Failed, stage_error := Some e\<rparr>"

text \<open>
  Modelled from the spec: the result of a stage that did not run (4.7: status skipped);
  the orchestrator is missing.
\<close>

definition stage_skipped :: "stage \<Rightarrow> StageResult" where
  "stage_skipped s = (stage_done s)\<lparr>stage_status := Skipped\<rparr>"

text \<open>
  Modelled from the spec: the transition rule of 4.7; the orchestrator is missing. A stage
  that succeeds appends its result and the run advances; a stage that raises an
  unrecoverable condition sets \<open>terminal_error\<close>, the run moves to \<open>failed\<close>, and the
  remaining stages are recorded as skipped.
\<close>

definition execute ::
  "Collaborators \<Rightarrow> Request \<Rightarrow> stage \<Rightarrow> run_state \<Rightarrow> Orchestrator \<Rightarrow> Orchestrator" where
  "execute env req s next orch =
     (case run_stage env req s (run orch) of
        (events, Inr (result, artifact)) \<Rightarrow>
          \<lparr>state = next,
           run = (run orch)\<lparr>code := artifact, stage_results := stage_results (run orch) @ [result]\<rparr>,
           trace = trace orch @ StageRun s # events\<rparr>
      | (events, Inl e) \<Rightarrow>
          \<lparr>state = failed,
           run = (run orch)\<lparr>stage_results := stage_results (run orch) @ stage_failed s e
                                                # map stage_skipped (stages_after s),
                            terminal_error := Some e\<rparr>,
           trace = trace orch @ StageRun s # events\<rparr>)"

text \<open>
  Modelled from the spec: one transition of the state machine of 4.7; the orchestrator is missing.
\<close>

fun step :: "Collaborators \<Rightarrow> Request \<Rightarrow> Orchestrator \<Rightarrow> Orchestrator" where
  "step env req orch =
     (case state orch of
        pending \<Rightarrow> orch\<lparr>state := extracting\<rparr>
      | extracting \<Rightarrow> execute env req Entry validating orch
      | validating \<Rightarrow> execute env req Validation analyzing orch
      | analyzing \<Rightarrow> execute env req Analysis summarizing orch
      | summarizing \<Rightarrow> execute env req Summary completed orch
      | completed \<Rightarrow> orch
      | failed \<Rightarrow> orch)"

declare step.simps [simp del]

text \<open>
  Modelled from the spec: the terminal states \<open>completed\<close> and \<open>failed\<close> (4.7); the
  orchestrator is missing.
\<close>

definition terminal :: "Orchestrator \<Rightarrow> bool" where
  "terminal orch = (state orch = completed \<or> state orch = failed)"

text \<open>
  Modelled from the spec: the number of transitions from a state to \<open>completed\<close> (4.7); the
  orchestrator is missing.
\<close>

fun remaining :: "run_state \<Rightarrow> nat" where
  "remaining pending = 5"
| "remaining extracting = 4"
| "remaining validating = 3"
| "remaining analyzing = 2"
| "remaining summarizing = 1"
| "remaining completed = 0"
| "remaining failed = 0"

text \<open>
  Modelled from the spec: a run as it is created at request entry (section 3: no code, no
  results, no terminal error); the orchestrator is missing.
\<close>

definition new_run :: "string \<Rightarrow> nat \<Rightarrow> Orchestrator" where
  "new_run ident now =
     \<lparr>state = pending,
      run = \<lparr>run_id = ident, created_at = now, code = None, stage_results = [], terminal_error = None\<rparr>,
      trace = []\<rparr>"

text \<open>
  Modelled from the spec: the orchestrator runs the transitions until a terminal state
  (4.7); it is missing.
\<close>

function run_to_end :: "Collaborators \<Rightarrow> Request \<Rightarrow> Orchestrator \<Rightarrow> Orchestrator" where
  "run_to_end env req orch =
     (if terminal orch then orch else run_to_end env req (step env req orch))"
  by pat_completeness auto
termination
proof (relation "measure (\<lambda>(env, req, orch). remaining (state orch))")
  show "wf (measure (\<lambda>(env, req, orch). remaining (state orch)))" by simp
next
  fix env :: Collaborators and req :: Request and orch :: Orchestrator
  assume "\<not> terminal orch"
  then have "remaining (state (step env req orch)) < remaining (state orch)"
    by (cases "state orch")
       (auto simp: step.simps terminal_def execute_def split: prod.splits sum.splits)
  then show "((env, req, step env req orch), (env, req, orch))
               \<in> measure (\<lambda>(env, req, orch). remaining (state orch))"
    by simp
qed

declare run_to_end.simps [simp del]

text \<open>
  Modelled from the spec: one run for one request, from its creation to a terminal state
  (section 5); the orchestrator is missing.
\<close>

definition run_pipeline :: "Collaborators \<Rightarrow> Request \<Rightarrow> string \<Rightarrow> nat \<Rightarrow> Orchestrator" where
  "run_pipeline env req ident now = run_to_end env req (new_run ident now)"

text \<open>
  Modelled from the spec: the orchestrator after \<open>n\<close> transitions from the start of a
  run (4.7); it is missing.
\<close>

definition run_after :: "Collaborators \<Rightarrow> Request \<Rightarrow> string \<Rightarrow> nat \<Rightarrow> nat \<Rightarrow> Orchestrator" where
  "run_after env req ident now n = (step env req ^^ n) (new_run ident now)"

text \<open>
  What holds of every state the orchestrator reaches: before a failure, the stages run
  so far are the results so far, all \<open>Done\<close>; after a failure at the stage of index
  \<open>k\<close>, every stage has its result, the later ones \<open>Skipped\<close>, and only the stages up
  to that one have run.
\<close>

fun completed_stages :: "run_state \<Rightarrow> stage list" where
  "completed_stages pending = []"
| "completed_stages extracting = []"
| "completed_stages validating = [Entry]"
| "completed_stages analyzing = [Entry, Validation]"
| "completed_stages summarizing = [Entry, Validation, Analysis]"
| "completed_stages completed = [Entry, Validation, Analysis, Summary]"
| "completed_stages failed = []"

definition consistent :: "Orchestrator \<Rightarrow> bool" where
  "consistent orch =
     (if state orch = failed then
        (\<exists>k<4. map stage_name (stage_results (run orch)) = pipeline
              \<and> map stage_status (stage_results (run orch))
                  = replicate k Done @ Failed # replicate (3 - k) Skipped
              \<and> stages_run (trace orch) = take (Suc k) pipeline)
        \<and> terminal_error (run orch) \<noteq> None
      else map stage_name (stage_results (run orch)) = completed_stages (state orch)
         \<and> (\<forall>r \<in> set (stage_results (run orch)). stage_status r = Done)
         \<and> stages_run (trace orch) = completed_stages (state orch)
         \<and> terminal_error (run orch) = None)"

subsection \<open>A sample environment\<close>

text \<open>
  Collaborators for concrete runs: the code is the shared context, the tools find
  nothing, the model answers every prompt.
\<close>

definition sample_request :: "string \<Rightarrow> Request" where
  "sample_request src = \<lparr>user_message = ''explain this code'', code_context = Some src,
                          language_tag = Some ''python''\<rparr>"

definition sample_env :: Collaborators where
  "sample_env = \<lparr>extract_code = (\<lambda>r. case code_context r of Some c \<Rightarrow> c | None \<Rightarrow> []),
     parse = (\<lambda>s. None),
     detectors = [(''todo_comments'', \<lambda>s. [])],
     extract_imports = (\<lambda>s. []),
     extract_functions = (\<lambda>s. []),
     extract_classes = (\<lambda>s. []),
     compute_complexity = (\<lambda>s. \<lparr>line_count = 1, max_nesting_depth = 0, loop_count = 0, conditional_count = 0\<rparr>),
     reasoning_model = (\<lambda>p. Reply ''narrative'')\<rparr>"

section \<open>Properties of the clock and of the error handlers\<close>


















lemma replicate_two: "replicate 2 c = [c, c]"
  by (simp add: numeral_2_eq_2)

lemmas iso_eval = toISOString_def year_from_days.simps days_in_year_def is_leap_def
  month_lengths_def year_string_def pad_start_def digits.simps digit_char_def replicate_two

lemma InternalServerError_fields:
  "statusCode (InternalServerError m d) = S500"
  "error (InternalServerError m d) = ''Internal Server Error''"
  "message (InternalServerError (Some t) d) = t"
  "details (InternalServerError m d) = d"
  by (simp_all add: InternalServerError_def new_HttpException_def)


lemma toHttpException_throws: "toHttpException fmt err = Inl t \<Longrightarrow> t = cannot_convert"
  by (cases err) (auto split: option.splits)

lemma toHttpException_non_http:
  "\<not> isHttpException err \<Longrightarrow> toHttpException fmt err = Inr h
   \<Longrightarrow> statusCode h = S500 \<and> error h = ''Internal Server Error'' \<and> backendRequestId h = JUndefined"
  by (cases err)
     (auto simp: InternalServerError_fields backendRequestId_def opt_get_def js_get_def js_or_def
        split: option.splits)

lemma map_of_filter_key:
  "map_of (filter (\<lambda>p. fst p \<noteq> k) xs) k' = (if k' = k then None else map_of xs k')"
  by (induction xs) auto

text \<open>
  Reading the serialised object: the properties of the object whose value is not
  \<open>undefined\<close>, each serialised in turn.
\<close>

lemma map_of_json_props:
  "map_of (json_props obj) k =
     (case map_of obj k of
        None \<Rightarrow> None
      | Some v \<Rightarrow> if v = JUndefined then None else Some (json_body v))"
proof (induction obj)
  case Nil
  show ?case by simp
next
  case (Cons a obj)
  obtain k' v where a: "a = (k', v)" by (cases a)
  show ?case using Cons.IH unfolding a
    by (cases v) (simp_all add: map_of_filter_key)
qed

lemma json_props_with_id:
  "json_props (toJSON now h @ [(''request_id'', JStr s)])
     = json_props (toJSON now h) @ [(''request_id'', JStr s)]"
  by (simp add: toJSON_def split: option.splits)

lemma json_props_toJSON:
  "json_props (toJSON now h) =
     [(''error'', JStr (error h)), (''message'', JStr (message h)),
      (''status_code'', JNum (code_of (statusCode h))),
      (''timestamp'', JStr (toISOString now))]
     @ (case details h of None \<Rightarrow> [] | Some d \<Rightarrow> [(''details'', JObj (json_props d))])"
  by (simp add: toJSON_def split: option.splits)

lemma obj_set_toJSON:
  "obj_set (toJSON now h) ''request_id'' v = toJSON now h @ [(''request_id'', v)]"
  by (simp add: toJSON_def split: option.splits)

lemma envelope_fields:
  "map_of (json_props (toJSON now h) @ extra) ''error'' = Some (JStr (error h))"
  "map_of (json_props (toJSON now h) @ extra) ''message'' = Some (JStr (message h))"
  "map_of (json_props (toJSON now h) @ extra) ''status_code'' = Some (JNum (code_of (statusCode h)))"
  "map_of (json_props (toJSON now h) @ extra) ''timestamp'' = Some (JStr (toISOString now))"
  by (simp_all add: json_props_toJSON)

lemma envelope_details:
  "map_of extra ''details'' = None \<Longrightarrow>
   map_of (json_props (toJSON now h) @ extra) ''details''
     = map_option (\<lambda>d. JObj (json_props d)) (details h)"
  by (simp add: json_props_toJSON split: option.splits)

lemma envelope_request_id:
  "map_of (json_props (toJSON now h) @ extra) ''request_id'' = map_of extra ''request_id''"
  by (simp add: json_props_toJSON split: option.splits)

lemmas envelope_fields_plain = envelope_fields [where extra = "[]", simplified]

lemmas envelope_details_plain = envelope_details [where extra = "[]", simplified]

lemmas envelope_request_id_plain = envelope_request_id [where extra = "[]", simplified]

lemma handleApiError_plain:
  assumes "toHttpException fmt err = Inr h" "\<not> truthy (backendRequestId h)"
  shows "handleApiError fmt now err
           = Inr \<lparr>status = code_of (statusCode h), body = JObj (json_props (toJSON now h))\<rparr>"
  using assms by (simp add: handleApiError_def NextResponse_json_def)

lemma handleApiError_with_id:
  assumes "toHttpException fmt err = Inr h" "truthy (backendRequestId h)"
    "js_String fmt (backendRequestId h) = Some s"
  shows "handleApiError fmt now err
           = Inr \<lparr>status = code_of (statusCode h),
                  body = JObj (json_props (toJSON now h) @ [(''request_id'', JStr s)])\<rparr>"
  using assms
  by (simp add: handleApiError_def NextResponse_json_def obj_set_toJSON json_props_with_id)

lemma handleApiError_broken_id:
  assumes "toHttpException fmt err = Inr h" "truthy (backendRequestId h)"
    "js_String fmt (backendRequestId h) = None"
  shows "handleApiError fmt now err = Inl cannot_convert"
  using assms by (simp add: handleApiError_def)

lemma handleApiError_response:
  assumes "handleApiError fmt now err = Inr r"
  shows "\<exists>h. toHttpException fmt err = Inr h
       \<and> status r = code_of (statusCode h)
       \<and> field r ''error'' = Some (JStr (error h))
       \<and> field r ''message'' = Some (JStr (message h))
       \<and> field r ''status_code'' = Some (JNum (code_of (statusCode h)))
       \<and> field r ''timestamp'' = Some (JStr (toISOString now))
       \<and> field r ''details'' = map_option (\<lambda>d. JObj (json_props d)) (details h)
       \<and> field r ''request_id'' =
           (if truthy (backendRequestId h) then map_option JStr (js_String fmt (backendRequestId h))
            else None)"
proof (cases "toHttpException fmt err")
  case (Inl t)
  with assms show ?thesis by (simp add: handleApiError_def)
next
  case (Inr h)
  show ?thesis
  proof (cases "truthy (backendRequestId h)")
    case False
    from handleApiError_plain [OF Inr False, of now] assms
    have r: "r = \<lparr>status = code_of (statusCode h), body = JObj (json_props (toJSON now h))\<rparr>"
      by simp
    show ?thesis
      using Inr False
      by (simp add: r field_def envelope_fields_plain envelope_request_id_plain
          envelope_details_plain)
  next
    case True
    show ?thesis
    proof (cases "js_String fmt (backendRequestId h)")
      case None
      from handleApiError_broken_id [OF Inr True None, of now] assms show ?thesis by simp
    next
      case (Some s)
      from handleApiError_with_id [OF Inr True Some, of now] assms
      have r: "r = \<lparr>status = code_of (statusCode h),
                     body = JObj (json_props (toJSON now h) @ [(''request_id'', JStr s)])\<rparr>"
        by simp
      show ?thesis
        using Inr True Some
        by (simp add: r field_def envelope_fields envelope_request_id envelope_details
            del: map_of_append)
    qed
  qed
qed

lemma handleApiError_returns:
  "(\<exists>r. handleApiError fmt now err = Inr r) = convertible fmt err"
  by (cases err)
     (auto simp: handleApiError_def Let_def InternalServerError_fields backendRequestId_def
        opt_get_def js_get_def js_or_def split: option.splits)


lemma handleApiError_throws: "handleApiError fmt now err = Inl t \<Longrightarrow> t = cannot_convert"
  by (auto simp: handleApiError_def Let_def split: sum.splits if_splits option.splits
      dest: toHttpException_throws)

section \<open>The claims about the response boundary\<close>




text \<open>
  An \<open>Error\<close> built by \<open>createClientErrorFromBackend\<close> carries the request id of the
  backend as its own property \<open>requestId\<close>. The route throws it again as it is, and
  \<open>handleApiError\<close>, which looks for the id only in the details of an
  \<open>HttpException\<close>, answers it without the field \<open>request_id\<close>.
\<close>

lemma client_error_request_id_dropped:
  "createClientErrorFromBackend show_int
     \<lparr>be_error = JStr ''Internal Server Error'', be_message = JStr ''analysis failed'',
      be_request_id = JStr ''req-7'', be_timestamp = JUndefined, be_details = JUndefined\<rparr>
   = Inr \<lparr>err_name = ''Error'', err_message = ''analysis failed'',
          err_props = [(''backendError'',
                 JObj [(''error'', JStr ''Internal Server Error''), (''message'', JStr ''analysis failed''),
                       (''request_id'', JStr ''req-7''), (''timestamp'', JUndefined),
                       (''details'', JUndefined)]),
               (''requestId'', JStr ''req-7'')]\<rparr>
   \<and> carried_request_id (ErrorObj \<lparr>err_name = ''Error'', err_message = ''analysis failed'',
          err_props = [(''backendError'',
                 JObj [(''error'', JStr ''Internal Server Error''), (''message'', JStr ''analysis failed''),
                       (''request_id'', JStr ''req-7''), (''timestamp'', JUndefined),
                       (''details'', JUndefined)]),
               (''requestId'', JStr ''req-7'')]\<rparr>) = JStr ''req-7''
   \<and> map_option (\<lambda>r. (status r, field r ''request_id''))
       (responded (POST show_int 1700000000000 None (\<lambda>t. None)
          (\<lambda>req. Inl (ErrorObj \<lparr>err_name = ''Error'', err_message = ''analysis failed'',
             err_props = [(''backendError'',
                 JObj [(''error'', JStr ''Internal Server Error''), (''message'', JStr ''analysis failed''),
                       (''request_id'', JStr ''req-7''), (''timestamp'', JUndefined),
                       (''details'', JUndefined)]),
               (''requestId'', JStr ''req-7'')]\<rparr>))
          \<lparr>req_method = ''POST'', url = ''/api/copilotkit''\<rparr>))
     = Some (500, None)"
proof -
  have ts: "toISOString 1700000000000 = ''2023-11-14T22:13:20.000Z''" by (simp add: iso_eval)
  show ?thesis
    by (simp add: createClientErrorFromBackend_def carried_request_id_def js_get_def js_or_def
        POST_def withErrorHandler_def POST_handler_def handleApiError_def backendRequestId_def
        opt_get_def responded_def NextResponse_json_def toJSON_def ts field_def
        InternalServerError_fields)
qed




text \<open>
  A call of the agent service that times out is answered with 502, not 504, and a
  service that cannot be reached (\<open>connect EHOSTUNREACH\<close>) is answered with 503, not
  502.
\<close>

theorem route_status_counterexample:
  "map_option status (responded (POST show_int 1700000000000 None (\<lambda>t. None)
      (\<lambda>req. Inl (ErrorObj \<lparr>err_name = ''TimeoutError'',
                              err_message = ''The operation was aborted due to timeout'',
                              err_props = []\<rparr>))
      \<lparr>req_method = ''POST'', url = ''/api/copilotkit''\<rparr>)) = Some 502
   \<and> map_option status (responded (POST show_int 1700000000000 None (\<lambda>t. None)
      (\<lambda>req. Inl (ErrorObj \<lparr>err_name = ''Error'',
                              err_message = ''connect EHOSTUNREACH 10.0.0.5:8123'',
                              err_props = []\<rparr>))
      \<lparr>req_method = ''POST'', url = ''/api/copilotkit''\<rparr>)) = Some 503"
  by (simp add: POST_def withErrorHandler_def POST_handler_def js_get_def handleApiError_def
      backendRequestId_def opt_get_def js_or_def responded_def NextResponse_json_def
      BadGatewayError_def ServiceUnavailableError_def new_HttpException_def)

text \<open>
  Claim C3, as amended. When the call of the agent service fails with an \<open>Error\<close>
  that carries no \<open>backendError\<close> and whose message mentions \<open>ECONNREFUSED\<close> or
  \<open>connect\<close> (the connection was refused, or the service could not be reached), the
  route answers with status 503 and the error name \<open>Service Unavailable\<close>.
\<close>

theorem POST_connection_failure_is_503:
  assumes "handleRequest req = Inl err"
      and "as_Error err = Some (msg, props)"
      and "\<not> truthy (js_get props ''backendError'')"
      and "str_includes msg ''ECONNREFUSED'' \<or> str_includes msg ''connect''"
  shows "\<exists>r. POST fmt now env JSON_parse handleRequest req = Inr r
           \<and> status r = 503
           \<and> field r ''error'' = Some (JStr ''Service Unavailable'')"
proof -
  let ?h = "ServiceUnavailableError
      (Some ''Unable to connect to the code review agent. Please ensure the backend service is running.'')
      (Some [(''agentUrl'', JStr (agentUrl env))])"
  have p: "POST fmt now env JSON_parse handleRequest req = handleApiError fmt now (HttpExc ?h)"
    using assms by (simp add: POST_def withErrorHandler_def POST_handler_def)
  have id: "\<not> truthy (backendRequestId ?h)"
    by (simp add: backendRequestId_def ServiceUnavailableError_def new_HttpException_def
        opt_get_def js_get_def js_or_def)
  have "toHttpException fmt (HttpExc ?h) = Inr ?h" by simp
  from handleApiError_plain [OF this id, of now]
  show ?thesis
    by (simp add: p field_def envelope_fields_plain ServiceUnavailableError_def
        new_HttpException_def)
qed

theorem POST_connection_failure_is_503_witness:
  "as_Error (ErrorObj \<lparr>err_name = ''Error'', err_message = ''connect ECONNREFUSED 127.0.0.1:8123'',
                        err_props = []\<rparr>)
     = Some (''connect ECONNREFUSED 127.0.0.1:8123'', [])
   \<and> str_includes ''connect ECONNREFUSED 127.0.0.1:8123'' ''ECONNREFUSED''
   \<and> (\<exists>r. POST show_int 1700000000000 None (\<lambda>t. None)
        (\<lambda>req. Inl (ErrorObj \<lparr>err_name = ''Error'',
                                err_message = ''connect ECONNREFUSED 127.0.0.1:8123'',
                                err_props = []\<rparr>))
        \<lparr>req_method = ''POST'', url = ''/api/copilotkit''\<rparr> = Inr r
      \<and> status r = 503
      \<and> field r ''error'' = Some (JStr ''Service Unavailable''))"
proof -
  have e: "as_Error (ErrorObj \<lparr>err_name = ''Error'',
                        err_message = ''connect ECONNREFUSED 127.0.0.1:8123'', err_props = []\<rparr>)
     = Some (''connect ECONNREFUSED 127.0.0.1:8123'', [])" by simp
  have b: "\<not> truthy (js_get [] ''backendError'')" by (simp add: js_get_def)
  have i: "str_includes ''connect ECONNREFUSED 127.0.0.1:8123'' ''ECONNREFUSED''
           \<or> str_includes ''connect ECONNREFUSED 127.0.0.1:8123'' ''connect''" by simp
  have i': "str_includes ''connect ECONNREFUSED 127.0.0.1:8123'' ''ECONNREFUSED''" by simp
  from POST_connection_failure_is_503 [OF refl e b i, of show_int 1700000000000 None "\<lambda>t. None"
      "\<lparr>req_method = ''POST'', url = ''/api/copilotkit''\<rparr>"] e i'
  show ?thesis by simp
qed

text \<open>
  Whatever the endpoint throws that is not an \<open>HttpException\<close> already, the route
  answers it, when it answers, with 500, 502 or 503.
\<close>

lemma POST_handler_thrown:
  "\<exists>e. POST_handler fmt env JSON_parse (Inl err) = Inl e
       \<and> (e = err \<or> (\<exists>h. e = HttpExc h \<and> statusCode h \<in> {S500, S502, S503}))"
proof (cases "as_Error err")
  case None
  then show ?thesis by (simp add: POST_handler_def)
next
  case (Some p)
  obtain msg props where p: "p = (msg, props)" by (cases p)
  show ?thesis
    by (simp add: POST_handler_def Some p backend_service_error_def InternalServerError_fields
        ServiceUnavailableError_def BadGatewayError_def new_HttpException_def Let_def
        split: option.splits)
qed

lemma POST_thrown_status:
  assumes "\<not> isHttpException err"
      and "POST fmt now env JSON_parse (\<lambda>req. Inl err) req = Inr r"
  shows "status r \<in> {500, 502, 503}"
proof -
  from POST_handler_thrown [of fmt env JSON_parse err] obtain e where
    e: "POST_handler fmt env JSON_parse (Inl err) = Inl e"
    and s: "e = err \<or> (\<exists>h. e = HttpExc h \<and> statusCode h \<in> {S500, S502, S503})"
    by blast
  from assms(2) e have r: "handleApiError fmt now e = Inr r"
    by (simp add: POST_def withErrorHandler_def)
  from handleApiError_response [OF r] obtain h where
    h: "toHttpException fmt e = Inr h" "status r = code_of (statusCode h)" by blast
  from s show ?thesis
  proof
    assume "e = err"
    with toHttpException_non_http [OF assms(1), of fmt h] h show ?thesis by simp
  next
    assume "\<exists>g. e = HttpExc g \<and> statusCode g \<in> {S500, S502, S503}"
    with h show ?thesis by auto
  qed
qed

text \<open>
  Claim C4 fails where \<open>String\<close> throws: a thrown \<open>{toString: 1}\<close> is not an
  \<open>HttpException\<close>, and \<open>handleApiError\<close> answers it with no response at all.
\<close>

theorem thrown_object_counterexample:
  "\<not> isHttpException (NonError (JObj [(''toString'', JNum 1)]))
   \<and> responded (handleApiError show_int 1700000000000 (NonError (JObj [(''toString'', JNum 1)])))
       = None"
  by (simp add: handleApiError_def responded_def)

text \<open>
  Claim C4, as amended. For every thrown value that is not an \<open>HttpException\<close> and
  that is an \<open>Error\<close> or a value that \<open>String\<close> converts, \<open>handleApiError\<close>
  responds with status 500 and an envelope whose field \<open>error\<close> is
  \<open>Internal Server Error\<close>; when the value is an \<open>Error\<close>, the field \<open>message\<close> is
  its message.
\<close>

theorem non_http_exception_is_500:
  assumes "\<not> isHttpException err" and "convertible fmt err"
  shows "\<exists>r. handleApiError fmt now err = Inr r
           \<and> status r = 500
           \<and> field r ''error'' = Some (JStr ''Internal Server Error'')
           \<and> (\<forall>e. err = ErrorObj e \<longrightarrow> field r ''message'' = Some (JStr (err_message e)))"
proof -
  from assms(2) have "\<exists>r. handleApiError fmt now err = Inr r"
    by (simp only: handleApiError_returns)
  then obtain r where r: "handleApiError fmt now err = Inr r" ..
  from handleApiError_response [OF r] obtain h where
    h: "toHttpException fmt err = Inr h" "status r = code_of (statusCode h)"
       "field r ''error'' = Some (JStr (error h))" "field r ''message'' = Some (JStr (message h))"
    by blast
  from toHttpException_non_http [OF assms(1) h(1)] h r show ?thesis
    by (auto simp: InternalServerError_fields)
qed

theorem non_http_exception_is_500_witness:
  "\<not> isHttpException (ErrorObj \<lparr>err_name = ''RangeError'', err_message = ''out of range'', err_props = []\<rparr>)
   \<and> convertible show_int
       (ErrorObj \<lparr>err_name = ''RangeError'', err_message = ''out of range'', err_props = []\<rparr>)
   \<and> (\<exists>r. handleApiError show_int 0
        (ErrorObj \<lparr>err_name = ''RangeError'', err_message = ''out of range'', err_props = []\<rparr>) = Inr r
      \<and> status r = 500
      \<and> field r ''error'' = Some (JStr ''Internal Server Error'')
      \<and> field r ''message'' = Some (JStr ''out of range''))
   \<and> \<not> isHttpException (NonError (JArr [JStr ''oops'', JNull]))
   \<and> convertible show_int (NonError (JArr [JStr ''oops'', JNull]))
   \<and> (\<exists>r. handleApiError show_int 0 (NonError (JArr [JStr ''oops'', JNull])) = Inr r
      \<and> status r = 500)"
  using non_http_exception_is_500 [of
      "ErrorObj \<lparr>err_name = ''RangeError'', err_message = ''out of range'', err_props = []\<rparr>"
      show_int 0]
    non_http_exception_is_500 [of "NonError (JArr [JStr ''oops'', JNull])" show_int 0]
  by auto




text \<open>
  Claim C8 fails where \<open>String\<close> throws: for the value \<open>{toString: 1}\<close>
  \<open>toHttpException\<close> throws a \<open>TypeError\<close> and returns no \<open>HttpException\<close>.
\<close>

theorem toHttpException_throws_counterexample:
  "toHttpException show_int (NonError (JObj [(''toString'', JNum 1)])) = Inl cannot_convert"
  by simp

text \<open>
  Claim C8, as amended. \<open>toHttpException\<close> returns an \<open>HttpException\<close> as it is;
  it returns an \<open>HttpException\<close>, of status 500, for every \<open>Error\<close> and for every
  other value that \<open>String\<close> converts; and it is idempotent: the nested call
  \<open>toHttpException(toHttpException(e))\<close> does what \<open>toHttpException(e)\<close> does, for
  every value \<open>e\<close>.
\<close>

theorem toHttpException_idempotent:
  "toHttpException fmt (HttpExc h) = Inr h
   \<and> (case toHttpException fmt e of
         Inl t \<Rightarrow> Inl t
       | Inr g \<Rightarrow> toHttpException fmt (HttpExc g)) = toHttpException fmt e
   \<and> ((\<forall>v. e = NonError v \<longrightarrow> js_String fmt v \<noteq> None) \<longrightarrow>
        (\<exists>g. toHttpException fmt e = Inr g
           \<and> (\<not> isHttpException e \<longrightarrow> statusCode g = S500)))"
proof (intro conjI)
  show "toHttpException fmt (HttpExc h) = Inr h" by simp
  show "(case toHttpException fmt e of
           Inl t \<Rightarrow> Inl t
         | Inr g \<Rightarrow> toHttpException fmt (HttpExc g)) = toHttpException fmt e"
    by (cases "toHttpException fmt e") simp_all
  show "(\<forall>v. e = NonError v \<longrightarrow> js_String fmt v \<noteq> None) \<longrightarrow>
        (\<exists>g. toHttpException fmt e = Inr g
           \<and> (\<not> isHttpException e \<longrightarrow> statusCode g = S500))"
    by (cases e) (auto simp: InternalServerError_fields)
qed

theorem toHttpException_idempotent_witness:
  "js_String show_int (JArr [JNum 7, JNull, JStr ''x'']) = Some ''7,,x''
   \<and> \<not> isHttpException (NonError (JArr [JNum 7, JNull, JStr ''x'']))
   \<and> toHttpException show_int (NonError (JArr [JNum 7, JNull, JStr ''x'']))
     = Inr (InternalServerError (Some ''An unknown error occurred'')
              (Some [(''originalError'', JStr ''7,,x'')]))
   \<and> toHttpException show_int
       (HttpExc (InternalServerError (Some ''An unknown error occurred'')
                   (Some [(''originalError'', JStr ''7,,x'')])))
     = toHttpException show_int (NonError (JArr [JNum 7, JNull, JStr ''x'']))
   \<and> statusCode (InternalServerError (Some ''An unknown error occurred'')
                   (Some [(''originalError'', JStr ''7,,x'')])) = S500
   \<and> toHttpException show_int (HttpExc (BadGatewayError None None)) = Inr (BadGatewayError None None)"
proof -
  have s: "js_String show_int (JArr [JNum 7, JNull, JStr ''x'']) = Some ''7,,x''"
    by (simp add: number_toString_def max_safe_integer_def show_int_def digits.simps digit_char_def)
  from toHttpException_idempotent [of show_int "BadGatewayError None None"
      "NonError (JArr [JNum 7, JNull, JStr ''x''])"] s
  show ?thesis by (simp add: InternalServerError_fields)
qed

text \<open>
  Claim C9. A response that is not ok and whose body is the JSON value \<open>null\<close> parses
  as JSON and has neither an \<open>error\<close> nor a \<open>message\<close>, and yet
  \<open>parseBackendErrorResponse\<close> does not return \<open>null\<close> for it: the read
  \<open>data.error\<close> throws inside the \<open>try\<close> block, and the \<open>catch\<close> block returns the
  generic record meant for a body that is not JSON.
\<close>

theorem parse_null_body_is_generic:
  "parseBackendErrorResponse
     \<lparr>ok = False, http_status = 500, statusText = ''Internal Server Error'',
      headers_get = (\<lambda>h. None), json = Some JNull\<rparr>
   = Some \<lparr>be_error = JStr ''Unknown Error'', be_message = JStr ''HTTP 500: Internal Server Error'',
           be_request_id = JUndefined, be_timestamp = JUndefined, be_details = JUndefined\<rparr>"
  by (simp add: parseBackendErrorResponse_def generic_error_def digits.simps digit_char_def)

text \<open>
  The other cases of the parser: \<open>null\<close> for an ok response, the generic record when
  the body is not JSON, the fields of the body when \<open>error\<close> and \<open>message\<close> are
  truthy, and \<open>null\<close> for every other body that is not \<open>null\<close>.
\<close>

lemma parse_ok_is_null: "ok r \<Longrightarrow> parseBackendErrorResponse r = None"
  by (simp add: parseBackendErrorResponse_def)

lemma parse_unparseable_is_generic:
  "\<not> ok r \<Longrightarrow> json r = None \<Longrightarrow> parseBackendErrorResponse r = Some (generic_error r)"
  by (simp add: parseBackendErrorResponse_def)

lemma parse_backend_format_preserved:
  "\<not> ok r \<Longrightarrow> json r = Some (JObj obj) \<Longrightarrow> truthy (js_get obj ''error'')
   \<Longrightarrow> truthy (js_get obj ''message'')
   \<Longrightarrow> parseBackendErrorResponse r =
       Some \<lparr>be_error = js_get obj ''error'', be_message = js_get obj ''message'',
             be_request_id = js_get obj ''request_id'', be_timestamp = js_get obj ''timestamp'',
             be_details = js_get obj ''details''\<rparr>"
  by (simp add: parseBackendErrorResponse_def js_read_def)

lemma parse_other_body_is_null:
  "\<not> ok r \<Longrightarrow> json r = Some data \<Longrightarrow> data \<noteq> JNull \<Longrightarrow> data \<noteq> JUndefined
   \<Longrightarrow> \<not> (truthy (js_read data ''error'') \<and> truthy (js_read data ''message''))
   \<Longrightarrow> parseBackendErrorResponse r = None"
  by (cases data) (auto simp: parseBackendErrorResponse_def js_read_def)




section \<open>Properties of the orchestrator\<close>

lemma stages_run_append: "stages_run (xs @ ys) = stages_run xs @ stages_run ys"
  by (induction xs rule: stages_run.induct) simp_all

lemma stages_run_tools: "stages_run (map (\<lambda>(n, d). ToolCall n) ds) = []"
  by (induction ds) auto

lemma stages_run_stage: "stages_run (fst (run_stage env req s r)) = []"
  by (cases s)
     (auto simp: entry_stage_def validation_stage_def analysis_stage_def summary_stage_def
        Let_def stages_run_append stages_run_tools split: option.splits)

lemma result_of_stage:
  "run_stage env req s r = (events, Inr (result, artifact))
   \<Longrightarrow> stage_name result = s \<and> stage_status result = Done"
  by (cases s)
     (auto simp: entry_stage_def validation_stage_def analysis_stage_def summary_stage_def
        stage_done_def Let_def split: option.splits if_splits model_reply.splits)

lemma consistent_new_run: "consistent (new_run ident now)"
  by (simp add: consistent_def new_run_def)

lemma map_status_Done:
  "(\<forall>r \<in> set rs. stage_status r = Done) \<Longrightarrow> map stage_status rs = replicate (length rs) Done"
  by (induction rs) auto

lemma consistent_execute:
  assumes c: "map stage_name (stage_results (run orch)) = done_before"
      and d: "\<forall>r \<in> set (stage_results (run orch)). stage_status r = Done"
      and t: "stages_run (trace orch) = done_before"
      and n: "terminal_error (run orch) = None"
      and p: "done_before @ s # stages_after s = pipeline"
      and nx: "next \<noteq> failed" "completed_stages next = done_before @ [s]"
  shows "consistent (execute env req s next orch)"
proof (cases "run_stage env req s (run orch)")
  case (Pair events outcome)
  have ev: "stages_run events = []" using stages_run_stage [of env req s "run orch"] Pair by simp
  show ?thesis
  proof (cases outcome)
    case (Inr ra)
    obtain result artifact where ra: "ra = (result, artifact)" by (cases ra)
    from result_of_stage [of env req s "run orch" events result artifact] Pair Inr ra
    have r: "stage_name result = s" "stage_status result = Done" by simp_all
    show ?thesis
      using Pair Inr ra r c d t n nx ev
      by (simp add: execute_def consistent_def stages_run_append)
  next
    case (Inl e)
    have len: "length (stage_results (run orch)) = length done_before" using c by (metis length_map)
    have k4: "length done_before < 4" using p by (cases s) (auto simp: pipeline_def)
    have rest: "length (stages_after s) = 3 - length done_before"
      using p by (cases s) (auto simp: pipeline_def)
    have "take (Suc (length done_before)) (done_before @ s # stages_after s) = done_before @ [s]"
      by simp
    then have tk: "take (Suc (length done_before)) pipeline = done_before @ [s]"
      by (simp only: p)
    have st: "map stage_status (stage_results (run orch)) = replicate (length done_before) Done"
      using map_status_Done [OF d] len by simp
    have names: "map stage_name (map stage_skipped (stages_after s)) = stages_after s"
      by (simp add: stage_skipped_def stage_done_def comp_def)
    have stats: "map stage_status (map stage_skipped (stages_after s))
                   = replicate (length (stages_after s)) Skipped"
      by (simp add: stage_skipped_def stage_done_def comp_def map_replicate_const)
    show ?thesis
      unfolding consistent_def
      using Pair Inl
      apply (simp add: execute_def stages_run_append ev t del: map_map)
      apply (rule exI [of _ "length done_before"])
      using k4 c st names stats rest tk p
      apply (simp add: stage_failed_def stage_done_def del: map_map)
      done
  qed
qed

lemma consistent_step: "consistent orch \<Longrightarrow> consistent (step env req orch)"
proof (cases "state orch")
  case pending
  assume "consistent orch"
  with pending show ?thesis by (simp add: step.simps consistent_def)
next
  case extracting
  assume "consistent orch"
  with extracting show ?thesis
    using consistent_execute [of orch "[]" Entry validating env req]
    by (simp add: step.simps consistent_def pipeline_def)
next
  case validating
  assume "consistent orch"
  with validating show ?thesis
    using consistent_execute [of orch "[Entry]" Validation analyzing env req]
    by (simp add: step.simps consistent_def pipeline_def)
next
  case analyzing
  assume "consistent orch"
  with analyzing show ?thesis
    using consistent_execute [of orch "[Entry, Validation]" Analysis summarizing env req]
    by (simp add: step.simps consistent_def pipeline_def)
next
  case summarizing
  assume "consistent orch"
  with summarizing show ?thesis
    using consistent_execute [of orch "[Entry, Validation, Analysis]" Summary completed env req]
    by (simp add: step.simps consistent_def pipeline_def)
next
  case completed
  assume "consistent orch"
  with completed show ?thesis by (simp add: step.simps)
next
  case failed
  assume "consistent orch"
  with failed show ?thesis by (simp add: step.simps)
qed

lemma run_to_end_consistent:
  "consistent orch \<Longrightarrow> consistent (run_to_end env req orch) \<and> terminal (run_to_end env req orch)"
proof (induction env req orch rule: run_to_end.induct)
  case (1 env req orch)
  show ?case
  proof (cases "terminal orch")
    case True
    with 1 show ?thesis by (simp add: run_to_end.simps [of env req orch])
  next
    case False
    with 1 consistent_step [of orch env req] show ?thesis
      by (simp add: run_to_end.simps [of env req orch])
  qed
qed

lemma step_decreases:
  "\<not> terminal orch \<Longrightarrow> remaining (state (step env req orch)) < remaining (state orch)"
  by (cases "state orch")
     (auto simp: step.simps terminal_def execute_def split: prod.splits sum.splits)

lemma step_appends:
  "prefix (stage_results (run orch)) (stage_results (run (step env req orch)))"
  by (cases "state orch")
     (auto simp: step.simps execute_def split: prod.splits sum.splits)

lemma step_appends_one:
  assumes "state orch \<in> {extracting, validating, analyzing, summarizing}"
      and "terminal_error (run orch) = None"
      and "terminal_error (run (step env req orch)) = None"
  shows "\<exists>r. stage_results (run (step env req orch)) = stage_results (run orch) @ [r]
           \<and> stage_status r = Done"
proof -
  have *: "\<exists>r. stage_results (run (execute env req s nxt orch)) = stage_results (run orch) @ [r]
            \<and> stage_status r = Done"
    if a: "terminal_error (run (execute env req s nxt orch)) = None" for s nxt
  proof -
    obtain events outcome where po: "run_stage env req s (run orch) = (events, outcome)"
      by (cases "run_stage env req s (run orch)")
    show ?thesis
    proof (cases outcome)
      case (Inl e)
      with a po show ?thesis by (simp add: execute_def)
    next
      case (Inr ra)
      obtain result artifact where ra: "ra = (result, artifact)" by (cases ra)
      from result_of_stage [of env req s "run orch" events result artifact] po Inr ra
      show ?thesis by (simp add: execute_def)
    qed
  qed
  from assms(1) consider "state orch = extracting" | "state orch = validating"
    | "state orch = analyzing" | "state orch = summarizing" by auto
  then show ?thesis
    using assms(3) * by cases (simp_all add: step.simps)
qed

lemma consistent_reachable: "consistent ((step env req ^^ n) (new_run ident now))"
  by (induction n) (simp_all add: consistent_new_run consistent_step)

lemma failed_is_fixed:
  "consistent orch \<Longrightarrow> terminal_error (run orch) \<noteq> None \<Longrightarrow> step env req orch = orch"
  by (cases "state orch = failed") (simp_all add: step.simps consistent_def)

lemma final_consistent:
  "consistent (run_pipeline env req ident now) \<and> terminal (run_pipeline env req ident now)"
  unfolding run_pipeline_def by (rule run_to_end_consistent [OF consistent_new_run])

lemma consistent_names:
  "consistent orch \<Longrightarrow> terminal orch \<Longrightarrow> map stage_name (stage_results (run orch)) = pipeline"
  by (auto simp: consistent_def terminal_def pipeline_def split: if_splits)

lemma consistent_completed:
  "consistent orch \<Longrightarrow> terminal orch \<Longrightarrow> terminal_error (run orch) = None
   \<Longrightarrow> state orch = completed \<and> stages_run (trace orch) = pipeline
       \<and> map stage_status (stage_results (run orch)) = [Done, Done, Done, Done]"
proof -
  assume c: "consistent orch" and t: "terminal orch" and n: "terminal_error (run orch) = None"
  have st: "state orch = completed" using c t n by (auto simp: consistent_def terminal_def)
  with c have nm: "map stage_name (stage_results (run orch)) = pipeline"
    and dn: "\<forall>r \<in> set (stage_results (run orch)). stage_status r = Done"
    and tr: "stages_run (trace orch) = pipeline"
    by (simp_all add: consistent_def pipeline_def)
  have "length (map stage_name (stage_results (run orch))) = length pipeline"
    by (simp only: nm)
  then have "length (stage_results (run orch)) = 4" by (simp add: pipeline_def)
  with map_status_Done [OF dn] have "map stage_status (stage_results (run orch)) = replicate 4 Done"
    by simp
  then show ?thesis using st tr by (simp add: eval_nat_numeral)
qed

lemma consistent_failed:
  "consistent orch \<Longrightarrow> terminal_error (run orch) \<noteq> None
   \<Longrightarrow> state orch = failed
     \<and> (\<exists>k<4. map stage_status (stage_results (run orch))
                 = replicate k Done @ Failed # replicate (3 - k) Skipped
             \<and> stages_run (trace orch) = take (Suc k) pipeline)"
  by (cases "state orch = failed") (auto simp: consistent_def)

lemma step_terminal: "terminal orch \<Longrightarrow> step env req orch = orch"
  by (auto simp: step.simps terminal_def)

lemma terminal_fixed: "terminal orch \<Longrightarrow> (step env req ^^ k) orch = orch"
  by (induction k) (simp_all add: step_terminal)

lemma run_to_end_funpow:
  "remaining (state orch) \<le> k \<Longrightarrow> (step env req ^^ k) orch = run_to_end env req orch"
proof (induction k arbitrary: orch)
  case 0
  then have "terminal orch" by (cases "state orch") (simp_all add: terminal_def)
  then show ?case by (simp add: run_to_end.simps [of env req orch])
next
  case (Suc k)
  show ?case
  proof (cases "terminal orch")
    case True
    then show ?thesis
      using terminal_fixed [OF True, where env = env and req = req and k = "Suc k"] by (simp only: run_to_end.simps [of env req orch] if_True)
  next
    case False
    from step_decreases [of orch env req] False Suc.prems
    have "remaining (state (step env req orch)) \<le> k" by simp
    from Suc.IH [OF this] False show ?thesis
      by (simp add: run_to_end.simps [of env req orch] funpow_swap1)
  qed
qed

lemma run_pipeline_five_steps: "run_pipeline env req ident now = run_after env req ident now 5"
  unfolding run_pipeline_def run_after_def
  by (rule run_to_end_funpow [symmetric]) (simp add: new_run_def)

lemmas run_eval = run_pipeline_def run_to_end.simps step.simps new_run_def terminal_def execute_def
  entry_stage_def validation_stage_def analysis_stage_def summary_stage_def
  stage_done_def stage_failed_def stage_skipped_def narrative_of_def narrative_from_def
  count_severity_def order_findings_def sample_env_def sample_request_def trim_def is_whitespace_def Let_def

lemma sample_run_completes:
  "terminal_error (run (run_pipeline sample_env (sample_request ''x = 1'') ''run-1'' 0)) = None"
  by (simp add: run_eval)

section \<open>The claims about the pipeline\<close>

text \<open>
  Claim C5. A run is five transitions of the orchestrator. It leaves one
  \<open>StageResult\<close> per stage, in the order Entry, Validation, Analysis, Summary. Without
  a terminal error all four stages have run in that order and every result is
  \<open>Done\<close>. With a terminal error the stages up to the failing one have run in order
  and the later ones are \<open>Skipped\<close>. Every transition only appends to
  \<open>stage_results\<close>, a stage that succeeds appends exactly one result, and once
  \<open>terminal_error\<close> is set a transition changes nothing.
\<close>

theorem pipeline_order_append_only:
  "run_pipeline env req ident now = run_after env req ident now 5
   \<and> map stage_name (stage_results (run (run_pipeline env req ident now)))
       = [Entry, Validation, Analysis, Summary]
   \<and> (terminal_error (run (run_pipeline env req ident now)) = None \<longrightarrow>
        state (run_pipeline env req ident now) = completed
        \<and> stages_run (trace (run_pipeline env req ident now)) = [Entry, Validation, Analysis, Summary]
        \<and> map stage_status (stage_results (run (run_pipeline env req ident now)))
            = [Done, Done, Done, Done])
   \<and> (terminal_error (run (run_pipeline env req ident now)) \<noteq> None \<longrightarrow>
        state (run_pipeline env req ident now) = failed
        \<and> (\<exists>k<4. map stage_status (stage_results (run (run_pipeline env req ident now)))
                    = replicate k Done @ Failed # replicate (3 - k) Skipped
                \<and> stages_run (trace (run_pipeline env req ident now))
                    = take (Suc k) [Entry, Validation, Analysis, Summary]))
   \<and> (\<forall>n. prefix (stage_results (run (run_after env req ident now n)))
                  (stage_results (run (run_after env req ident now (Suc n)))))
   \<and> (\<forall>n. state (run_after env req ident now n) \<in> {extracting, validating, analyzing, summarizing}
          \<and> terminal_error (run (run_after env req ident now (Suc n))) = None \<longrightarrow>
          (\<exists>r. stage_results (run (run_after env req ident now (Suc n)))
                 = stage_results (run (run_after env req ident now n)) @ [r]
               \<and> stage_status r = Done))
   \<and> (\<forall>n. terminal_error (run (run_after env req ident now n)) \<noteq> None \<longrightarrow>
          run_after env req ident now (Suc n) = run_after env req ident now n)"
proof -
  let ?final = "run_pipeline env req ident now"
  have fc: "consistent ?final" and ft: "terminal ?final"
    using final_consistent [of env req ident now] by simp_all
  have rc: "consistent (run_after env req ident now n)" for n
    unfolding run_after_def by (rule consistent_reachable)
  have suc: "run_after env req ident now (Suc n) = step env req (run_after env req ident now n)" for n
    by (simp add: run_after_def)
  have a: "?final = run_after env req ident now 5" by (rule run_pipeline_five_steps)
  have b: "map stage_name (stage_results (run ?final)) = [Entry, Validation, Analysis, Summary]"
    using consistent_names [OF fc ft] by (simp add: pipeline_def)
  have c: "terminal_error (run ?final) = None \<longrightarrow>
        state ?final = completed
        \<and> stages_run (trace ?final) = [Entry, Validation, Analysis, Summary]
        \<and> map stage_status (stage_results (run ?final)) = [Done, Done, Done, Done]"
    using consistent_completed [OF fc ft] by (simp add: pipeline_def)
  have d: "terminal_error (run ?final) \<noteq> None \<longrightarrow>
        state ?final = failed
        \<and> (\<exists>k<4. map stage_status (stage_results (run ?final))
                    = replicate k Done @ Failed # replicate (3 - k) Skipped
                \<and> stages_run (trace ?final) = take (Suc k) [Entry, Validation, Analysis, Summary])"
    using consistent_failed [OF fc] by (simp add: pipeline_def)
  have e: "\<forall>n. prefix (stage_results (run (run_after env req ident now n)))
                  (stage_results (run (run_after env req ident now (Suc n))))"
    by (simp add: suc step_appends)
  have f: "\<forall>n. state (run_after env req ident now n) \<in> {extracting, validating, analyzing, summarizing}
          \<and> terminal_error (run (run_after env req ident now (Suc n))) = None \<longrightarrow>
          (\<exists>r. stage_results (run (run_after env req ident now (Suc n)))
                 = stage_results (run (run_after env req ident now n)) @ [r]
               \<and> stage_status r = Done)"
  proof (intro allI impI)
    fix n
    assume h: "state (run_after env req ident now n) \<in> {extracting, validating, analyzing, summarizing}
          \<and> terminal_error (run (run_after env req ident now (Suc n))) = None"
    have "terminal_error (run (run_after env req ident now n)) = None"
      using rc [of n] h by (auto simp: consistent_def split: if_splits)
    from step_appends_one [OF _ this, of env req] h
    show "\<exists>r. stage_results (run (run_after env req ident now (Suc n)))
                 = stage_results (run (run_after env req ident now n)) @ [r]
               \<and> stage_status r = Done"
      by (simp only: suc)
  qed
  have g: "\<forall>n. terminal_error (run (run_after env req ident now n)) \<noteq> None \<longrightarrow>
          run_after env req ident now (Suc n) = run_after env req ident now n"
    using failed_is_fixed [OF rc] by (simp only: suc) blast
  from a b c d e f g show ?thesis by blast
qed

theorem pipeline_order_append_only_witness:
  "terminal_error (run (run_pipeline sample_env (sample_request ''x = 1'') ''run-1'' 0)) = None
   \<and> state (run_pipeline sample_env (sample_request ''x = 1'') ''run-1'' 0) = completed
   \<and> map stage_name (stage_results (run (run_pipeline sample_env (sample_request ''x = 1'') ''run-1'' 0)))
       = [Entry, Validation, Analysis, Summary]
   \<and> map stage_status (stage_results (run (run_pipeline sample_env (sample_request ''x = 1'') ''run-1'' 0)))
       = [Done, Done, Done, Done]
   \<and> stages_run (trace (run_pipeline sample_env (sample_request ''x = 1'') ''run-1'' 0))
       = [Entry, Validation, Analysis, Summary]
   \<and> terminal_error (run (run_pipeline sample_env (sample_request [CHR '' '', CHR 0x0A, CHR 0x09]) ''run-2'' 0)) \<noteq> None
   \<and> state (run_pipeline sample_env (sample_request [CHR '' '', CHR 0x0A, CHR 0x09]) ''run-2'' 0) = failed
   \<and> run_after sample_env (sample_request [CHR '' '', CHR 0x0A, CHR 0x09]) ''run-2'' 0 3
       = run_after sample_env (sample_request [CHR '' '', CHR 0x0A, CHR 0x09]) ''run-2'' 0 2"
proof -
  have ok: "terminal_error (run (run_pipeline sample_env (sample_request ''x = 1'') ''run-1'' 0)) = None"
    by (rule sample_run_completes)
  have bad: "terminal_error (run (run_pipeline sample_env
      (sample_request [CHR '' '', CHR 0x0A, CHR 0x09]) ''run-2'' 0)) \<noteq> None"
    by (simp add: run_eval)
  have bad2: "terminal_error (run (run_after sample_env
      (sample_request [CHR '' '', CHR 0x0A, CHR 0x09]) ''run-2'' 0 2)) \<noteq> None"
    by (simp add: run_after_def numeral_2_eq_2 run_eval)
  have fixed: "run_after sample_env (sample_request [CHR '' '', CHR 0x0A, CHR 0x09]) ''run-2'' 0 (Suc 2)
       = run_after sample_env (sample_request [CHR '' '', CHR 0x0A, CHR 0x09]) ''run-2'' 0 2"
    using pipeline_order_append_only [of sample_env "sample_request [CHR '' '', CHR 0x0A, CHR 0x09]" "''run-2''" 0]
      bad2 by blast
  have three: "Suc 2 = 3" by simp
  show ?thesis
    using pipeline_order_append_only [of sample_env "sample_request ''x = 1''" "''run-1''" 0]
      pipeline_order_append_only [of sample_env "sample_request [CHR '' '', CHR 0x0A, CHR 0x09]" "''run-2''" 0]
      ok bad fixed [unfolded three]
    by blast
qed

text \<open>
  Claim C6. When the code of the request is empty after trimming whitespace, the run
  ends in the state \<open>failed\<close> with the terminal error \<open>InputError "no code provided"\<close>;
  only the Entry stage has run, and the trace holds no tool call and no call of the
  reasoning model.
\<close>

theorem empty_code_stops_at_entry:
  assumes "trim (extract_code env req) = []"
  shows "state (run_pipeline env req ident now) = failed
       \<and> terminal_error (run (run_pipeline env req ident now)) = Some (InputError ''no code provided'')
       \<and> stages_run (trace (run_pipeline env req ident now)) = [Entry]
       \<and> filter is_call (trace (run_pipeline env req ident now)) = []
       \<and> code (run (run_pipeline env req ident now)) = None
       \<and> map stage_status (stage_results (run (run_pipeline env req ident now)))
           = [Failed, Skipped, Skipped, Skipped]"
  using assms
  by (simp add: run_pipeline_def run_to_end.simps step.simps new_run_def terminal_def execute_def
      entry_stage_def stage_failed_def stage_skipped_def stage_done_def)

theorem empty_code_stops_at_entry_witness:
  "trim (extract_code sample_env (sample_request [CHR '' '', CHR 0x0A, CHR 0x09])) = []
   \<and> state (run_pipeline sample_env (sample_request [CHR '' '', CHR 0x0A, CHR 0x09]) ''run-2'' 0) = failed
   \<and> terminal_error (run (run_pipeline sample_env (sample_request [CHR '' '', CHR 0x0A, CHR 0x09]) ''run-2'' 0))
       = Some (InputError ''no code provided'')
   \<and> filter is_call (trace (run_pipeline sample_env (sample_request [CHR '' '', CHR 0x0A, CHR 0x09]) ''run-2'' 0)) = []
   \<and> filter is_call (trace (run_pipeline sample_env (sample_request ''x = 1'') ''run-1'' 0)) \<noteq> []"
proof -
  have blank: "trim (extract_code sample_env (sample_request [CHR '' '', CHR 0x0A, CHR 0x09])) = []"
    by (simp add: sample_env_def sample_request_def trim_def is_whitespace_def)
  have calls: "filter is_call (trace (run_pipeline sample_env (sample_request ''x = 1'') ''run-1'' 0)) \<noteq> []"
    by (simp add: run_eval)
  from empty_code_stops_at_entry [OF blank, of "''run-2''" 0] blank calls
  show ?thesis by simp
qed

end
